theory Spec2Isabelle
  imports Complex_Main "HOL-Library.Word" "HOL-Library.Signed_Division"
begin

section \<open>ESP32 temperature and humidity monitor: the resilience control loop\<close>

text \<open>
  A shallow embedding of the second sketch of \<^verbatim>\<open>src/src/main.cpp\<close> (AHT20 sensor, U8g2
  display, WebServer, watchdog; lines 487 to the end of the file): the guardians
  \<^verbatim>\<open>checkWiFiConnection\<close>, \<^verbatim>\<open>checkNTPSync\<close> and \<^verbatim>\<open>checkMemory\<close>, \<^verbatim>\<open>printCentered\<close>,
  the HTTP handlers and \<^verbatim>\<open>loop\<close>.

  The globals of the sketch are the fields of the record \<open>state\<close>. Every call into a
  library or into the hardware is recorded, in program order, in the field \<open>trace\<close>;
  what such a call returns is an input of the tick (record \<open>tick_input\<close>), one field per
  call site, so that every behaviour of the environment is covered. \<^verbatim>\<open>ESP.restart()\<close>
  does not return: a function that can reach it yields \<open>Restarted\<close> with the state at the
  call.
\<close>

subsection \<open>Machine integers\<close>

type_synonym u8 = "8 word"    \<comment> \<open>\<^verbatim>\<open>uint8_t\<close>\<close>
type_synonym i16 = "16 word"  \<comment> \<open>\<^verbatim>\<open>int16_t\<close>, read with \<open>sint\<close>; the bits of a \<^verbatim>\<open>u8g2_uint_t\<close>\<close>
type_synonym i32 = "32 word"  \<comment> \<open>\<^verbatim>\<open>int\<close>, read with \<open>sint\<close>\<close>
type_synonym u32 = "32 word"  \<comment> \<open>\<^verbatim>\<open>unsigned long\<close> and \<^verbatim>\<open>uint32_t\<close> on the ESP32\<close>

subsection \<open>Floats and text formatting (library behaviour)\<close>

text \<open>
  A \<^verbatim>\<open>float\<close> is NaN, an infinity or a finite value; a finite value is kept as the
  rational number it denotes (negative zero is not distinguished from zero).
\<close>

datatype cfloat = NaN | PInf | NInf | Fin rat

fun isnan :: "cfloat \<Rightarrow> bool" where
  "isnan NaN = True"
| "isnan PInf = False"
| "isnan NInf = False"
| "isnan (Fin r) = False"

definition digit_char :: "nat \<Rightarrow> char" where
  "digit_char d = ''0123456789'' ! d"

fun dec :: "nat \<Rightarrow> string" where
  "dec n = (if n < 10 then [digit_char n] else dec (n div 10) @ [digit_char (n mod 10)])"

declare dec.simps [simp del]

definition String_int :: "int \<Rightarrow> string" where
  \<comment> \<open>Arduino \<^verbatim>\<open>String(int)\<close>: the decimal digits, a minus sign first when negative.\<close>
  "String_int n = (if n < 0 then ''-'' @ dec (nat (- n)) else dec (nat n))"

definition String_ulong :: "u32 \<Rightarrow> string" where
  \<comment> \<open>Arduino \<^verbatim>\<open>String(unsigned long)\<close>.\<close>
  "String_ulong n = dec (unat n)"

definition zero_pad :: "nat \<Rightarrow> string \<Rightarrow> string" where
  "zero_pad w ds = replicate (w - length ds) CHR ''0'' @ ds"

definition printf_0d :: "nat \<Rightarrow> int \<Rightarrow> string" where
  \<comment> \<open>\<^verbatim>\<open>sprintf\<close> with \<^verbatim>\<open>%0<w>d\<close>: zero padded to \<open>w\<close> characters, the sign included.\<close>
  "printf_0d w n =
     (if n < 0 then ''-'' @ zero_pad (w - 1) (dec (nat (- n))) else zero_pad w (dec (nat n)))"

definition String_float :: "cfloat \<Rightarrow> nat \<Rightarrow> string" where
  \<comment> \<open>Arduino \<^verbatim>\<open>String(float, decimalPlaces)\<close>, which is \<^verbatim>\<open>dtostrf\<close> of the ESP32 core with
      width \<^verbatim>\<open>decimalPlaces + 2\<close>: the magnitude plus half a unit of the last place,
      then its digits cut off after \<open>decimalPlaces\<close> places. The core adds and cuts in
      \<^verbatim>\<open>double\<close> arithmetic, this definition exactly: a value that lies exactly half way
      between two outputs (22.25 at one place) can come out one unit lower in the core.
      The values formatted in the theorems below (0, 25 and 60) are not such values.\<close>
  "String_float v decimalPlaces =
     (case v of
        NaN \<Rightarrow> ''nan''
      | PInf \<Rightarrow> ''inf''
      | NInf \<Rightarrow> ''inf''
      | Fin r \<Rightarrow>
          (let scaled = nat \<lfloor>\<bar>r\<bar> * 10 ^ decimalPlaces + 1 / 2\<rfloor>;
               digits = dec (scaled div 10 ^ decimalPlaces) @
                 (if decimalPlaces > 0
                  then ''.'' @ zero_pad decimalPlaces (dec (scaled mod 10 ^ decimalPlaces))
                  else '''');
               pad = replicate (decimalPlaces + 2 - (length digits + (if r < 0 then 1 else 0))) CHR '' ''
           in pad @ (if r < 0 then ''-'' else '''') @ digits))"

definition round_half_even :: "rat \<Rightarrow> int" where
  "round_half_even x =
     (let f = \<lfloor>x\<rfloor>; d = x - of_int f
      in if d < 1 / 2 then f else if 1 / 2 < d then f + 1 else if even f then f else f + 1)"

definition printf_1f :: "cfloat \<Rightarrow> string" where
  \<comment> \<open>\<^verbatim>\<open>sprintf\<close> with \<^verbatim>\<open>%.1f\<close>: the value correctly rounded to one decimal place.\<close>
  "printf_1f v =
     (case v of
        NaN \<Rightarrow> ''nan''
      | PInf \<Rightarrow> ''inf''
      | NInf \<Rightarrow> ''-inf''
      | Fin r \<Rightarrow>
          (let scaled = nat (round_half_even (\<bar>r\<bar> * 10))
           in (if r < 0 then ''-'' else '''') @ dec (scaled div 10) @ ''.'' @ dec (scaled mod 10)))"

subsection \<open>Library types\<close>

datatype IPAddress = IPAddress u8 u8 u8 u8

datatype wl_status_t =
    WL_NO_SHIELD | WL_IDLE_STATUS | WL_NO_SSID_AVAIL | WL_SCAN_COMPLETED | WL_CONNECTED
  | WL_CONNECT_FAILED | WL_CONNECTION_LOST | WL_DISCONNECTED

datatype font = u8g2_font_ncenB08_tr | u8g2_font_ncenB18_tr | u8g2_font_ncenB12_tf

record tm =
  tm_sec :: int
  tm_min :: int
  tm_hour :: int
  tm_mday :: int
  tm_mon :: int
  tm_year :: int

subsection \<open>The trace of external calls\<close>

datatype serial_arg = Str string | Flt cfloat nat | ULong u32 | IP IPAddress

datatype event =
    Esp_task_wdt_reset
  | Millis
  | Delay nat
  | WiFi_status
  | WiFi_disconnect
  | WiFi_begin string string
  | WiFi_localIP
  | WiFi_config IPAddress IPAddress IPAddress IPAddress IPAddress
  | ESP_restart
  | ESP_getFreeHeap
  | ESP_getMinFreeHeap
  | ConfigTime int int string
  | GetLocalTime
  | Aht_getEvent
  | Display_clearBuffer
  | Display_setFont font
  | Display_getUTF8Width string
  | Display_drawStr i16 i16 string
  | Display_sendBuffer
  | Serial_print serial_arg
  | Serial_println serial_arg
  | Server_handleClient

subsection \<open>Configuration constants and globals\<close>

definition ssid :: string where "ssid = ''jiajia''"
definition password :: string where "password = ''9812061104''"

definition local_IP :: IPAddress where "local_IP = IPAddress 192 168 1 200"
definition gateway :: IPAddress where "gateway = IPAddress 192 168 1 1"
definition subnet :: IPAddress where "subnet = IPAddress 255 255 255 0"
definition primaryDNS :: IPAddress where "primaryDNS = IPAddress 192 168 1 1"
definition secondaryDNS :: IPAddress where "secondaryDNS = IPAddress 8 8 8 8"

definition ntpServer :: string where "ntpServer = ''cn.pool.ntp.org''"
definition gmtOffset_sec :: int where "gmtOffset_sec = 8 * 3600"
definition daylightOffset_sec :: int where "daylightOffset_sec = 0"

definition wifiCheckInterval :: u32 where "wifiCheckInterval = 30000"
definition ntpCheckInterval :: u32 where "ntpCheckInterval = 600000"
definition maxReconnectCount :: i32 where "maxReconnectCount = 5"

record state =
  currentTemperature :: cfloat
  currentHumidity :: cfloat
  currentTime :: string
  currentDate :: string
  firstDataReady :: bool
  lastWiFiCheck :: u32
  lastNTPCheck :: u32
  reconnectCount :: i32
  trace :: "event list"

definition initial_state :: state where
  \<comment> \<open>The initialisers of the globals; nothing has been called yet.\<close>
  "initial_state =
     \<lparr> currentTemperature = Fin 0, currentHumidity = Fin 0, currentTime = '''',
       currentDate = '''', firstDataReady = False, lastWiFiCheck = 0, lastNTPCheck = 0,
       reconnectCount = 0, trace = [] \<rparr>"

datatype outcome = Running state | Restarted state

fun state_of :: "outcome \<Rightarrow> state" where
  "state_of (Running s) = s"
| "state_of (Restarted s) = s"

text \<open>What the environment answers during one tick, one field per call site.\<close>

record tick_input =
  millis_wifi :: u32                       \<comment> \<open>\<^verbatim>\<open>millis()\<close> in \<^verbatim>\<open>checkWiFiConnection\<close>\<close>
  status_check :: wl_status_t              \<comment> \<open>\<^verbatim>\<open>WiFi.status()\<close> of the due check\<close>
  status_poll :: "nat \<Rightarrow> wl_status_t"      \<comment> \<open>\<^verbatim>\<open>WiFi.status()\<close> of the \<open>k\<close>-th test of the polling loop\<close>
  status_after :: wl_status_t              \<comment> \<open>\<^verbatim>\<open>WiFi.status()\<close> read after the polling loop\<close>
  wifi_localIP :: IPAddress
  config_ok :: bool                        \<comment> \<open>what \<^verbatim>\<open>WiFi.config\<close> returns\<close>
  millis_ntp :: u32                        \<comment> \<open>\<^verbatim>\<open>millis()\<close> in \<^verbatim>\<open>checkNTPSync\<close>\<close>
  ntp_time :: "tm option"                  \<comment> \<open>\<^verbatim>\<open>getLocalTime\<close> in \<^verbatim>\<open>checkNTPSync\<close>\<close>
  free_heap :: u32                         \<comment> \<open>\<^verbatim>\<open>ESP.getFreeHeap()\<close>\<close>
  min_free_heap :: u32                     \<comment> \<open>\<^verbatim>\<open>ESP.getMinFreeHeap()\<close>\<close>
  local_time :: "tm option"                \<comment> \<open>\<^verbatim>\<open>getLocalTime\<close> in \<^verbatim>\<open>loop\<close>\<close>
  sensor_temp :: cfloat                    \<comment> \<open>\<^verbatim>\<open>temp.temperature\<close> after \<^verbatim>\<open>aht.getEvent\<close>\<close>
  sensor_hum :: cfloat                     \<comment> \<open>\<^verbatim>\<open>humidity.relative_humidity\<close>\<close>
  utf8_width :: "font \<Rightarrow> string \<Rightarrow> i16"    \<comment> \<open>\<^verbatim>\<open>display.getUTF8Width\<close> under the font set\<close>
  status_report :: wl_status_t             \<comment> \<open>\<^verbatim>\<open>WiFi.status()\<close> of the serial report in \<^verbatim>\<open>loop\<close>\<close>

definition emits :: "event list \<Rightarrow> state \<Rightarrow> state" where
  "emits es s = s\<lparr>trace := trace s @ es\<rparr>"

subsection \<open>Memory guardian\<close>

definition checkMemory :: "tick_input \<Rightarrow> state \<Rightarrow> state" where
  "checkMemory env s0 =
     (let s = emits [ESP_getFreeHeap] s0;
          freeHeap = free_heap env;
          s = emits [ESP_getMinFreeHeap] s;
          minFreeHeap = min_free_heap env
      in if freeHeap < 30000 then
           emits
             [Serial_print (Str ''WARNING: Low memory! Free: ''),
              Serial_print (ULong freeHeap),
              Serial_print (Str '' bytes, Min: ''),
              Serial_print (ULong minFreeHeap),
              Serial_println (Str '' bytes''),
              Display_clearBuffer,
              Display_setFont u8g2_font_ncenB08_tr,
              Display_drawStr 0 15 ''Low Memory!'',
              Display_drawStr 0 30 (''Free: '' @ String_ulong (freeHeap div 1024) @ ''KB''),
              Display_sendBuffer,
              Delay 2000] s
         else s)"

subsection \<open>Network guardian\<close>

fun wait_connected :: "tick_input \<Rightarrow> nat \<Rightarrow> state \<Rightarrow> state" where
  \<comment> \<open>The polling loop \<^verbatim>\<open>while(WiFi.status() != WL_CONNECTED && retryTimeout > 0)\<close>;
      \<^verbatim>\<open>retryTimeout\<close> runs from 10 down to 0, so test number \<open>10 - retryTimeout\<close> is
      the one being made.\<close>
  "wait_connected env retryTimeout s0 =
     (let s = emits [WiFi_status] s0
      in if status_poll env (10 - retryTimeout) \<noteq> WL_CONNECTED \<and> retryTimeout > 0
         then wait_connected env (retryTimeout - 1)
                (emits [Delay 1000, Serial_print (Str ''.'')] s)
         else s)"

declare wait_connected.simps [simp del]

definition checkWiFiConnection :: "tick_input \<Rightarrow> state \<Rightarrow> outcome" where
  "checkWiFiConnection env s0 =
     (let s = emits [Millis] s0;
          currentMillis = millis_wifi env
      in if wifiCheckInterval \<le> currentMillis - lastWiFiCheck s then
           (let s = s\<lparr>lastWiFiCheck := currentMillis\<rparr>;
                s = emits [WiFi_status] s
            in if status_check env \<noteq> WL_CONNECTED then
                 (let s = emits
                        [Serial_println (Str ''WiFi disconnected! Attempting to reconnect...''),
                         Display_clearBuffer,
                         Display_setFont u8g2_font_ncenB08_tr,
                         Display_drawStr 0 15 ''WiFi Lost!'',
                         Display_drawStr 0 30
                           (''Retry: '' @ String_int (sint (reconnectCount s + 1))),
                         Display_sendBuffer,
                         WiFi_disconnect,
                         WiFi_begin ssid password] s;
                      s = wait_connected env 10 s;
                      s = emits [WiFi_status] s
                  in if status_after env = WL_CONNECTED then
                       (let s = emits
                              [Serial_println (Str ''\<newline>WiFi reconnected!''),
                               Serial_print (Str ''IP: ''),
                               WiFi_localIP,
                               Serial_println (IP (wifi_localIP env))] s;
                            s = s\<lparr>reconnectCount := 0\<rparr>;
                            s = emits
                              [WiFi_config local_IP gateway subnet primaryDNS secondaryDNS] s
                        in if \<not> config_ok env
                           then Running (emits
                              [Serial_println
                                 (Str ''Static IP configuration failed after reconnect'')] s)
                           else Running s)
                     else
                       (let s = emits [Serial_println (Str ''\<newline>WiFi reconnect failed!'')] s;
                            s = s\<lparr>reconnectCount := reconnectCount s + 1\<rparr>
                        in if sint maxReconnectCount \<le> sint (reconnectCount s)
                           then Restarted (emits
                              [Serial_println
                                 (Str ''Max reconnect attempts reached. Restarting ESP32...''),
                               Display_clearBuffer,
                               Display_setFont u8g2_font_ncenB08_tr,
                               Display_drawStr 0 15 ''WiFi Failed!'',
                               Display_drawStr 0 30 ''Restarting...'',
                               Display_sendBuffer,
                               Delay 2000,
                               ESP_restart] s)
                           else Running s))
               else Running (s\<lparr>reconnectCount := 0\<rparr>))
         else Running s)"

subsection \<open>Time guardian\<close>

definition checkNTPSync :: "tick_input \<Rightarrow> state \<Rightarrow> state" where
  "checkNTPSync env s0 =
     (let s = emits [Millis] s0;
          currentMillis = millis_ntp env
      in if ntpCheckInterval \<le> currentMillis - lastNTPCheck s then
           (let s = s\<lparr>lastNTPCheck := currentMillis\<rparr>;
                s = emits [ConfigTime gmtOffset_sec daylightOffset_sec ntpServer, GetLocalTime] s
            in case ntp_time env of
                 Some timeinfo \<Rightarrow> emits [Serial_println (Str ''NTP time sync successful'')] s
               | None \<Rightarrow> emits [Serial_println (Str ''NTP time sync failed'')] s)
         else s)"

subsection \<open>Centred text\<close>

definition printCentered :: "tick_input \<Rightarrow> string \<Rightarrow> i16 \<Rightarrow> font \<Rightarrow> state \<Rightarrow> state" where
  \<comment> \<open>\<^verbatim>\<open>128 - textWidth\<close> is computed in \<^verbatim>\<open>int\<close>, divided as C divides (towards zero) and
      stored in an \<^verbatim>\<open>int16_t\<close>.\<close>
  "printCentered env txt y fnt s0 =
     (let s = emits [Display_setFont fnt] s0;
          s = emits [Display_getUTF8Width txt] s;
          textWidth = utf8_width env fnt txt;
          x = (word_of_int ((128 - sint textWidth) sdiv 2) :: i16)
      in emits [Display_drawStr x y txt] s)"

subsection \<open>The control loop\<close>

definition degree_utf8 :: string where
  \<comment> \<open>The degree sign as the UTF-8 source file holds it.\<close>
  "degree_utf8 = [CHR 0xC2, CHR 0xB0]"

definition loop :: "tick_input \<Rightarrow> state \<Rightarrow> outcome" where
  \<comment> \<open>One tick. The buffers \<^verbatim>\<open>currentTime[32]\<close>, \<^verbatim>\<open>currentDate[32]\<close>, \<^verbatim>\<open>dateStr[20]\<close>,
      \<^verbatim>\<open>timeStr[16]\<close> and \<^verbatim>\<open>tempHumStr[30]\<close> hold strings of any length here: the fields of
      \<^verbatim>\<open>struct tm\<close> and the readings are taken to be in the range the libraries produce.\<close>
  "loop env s0 =
     (let s = emits [Esp_task_wdt_reset] s0
      in case checkWiFiConnection env s of
           Restarted s \<Rightarrow> Restarted s
         | Running s \<Rightarrow>
             (let s = checkNTPSync env s;
                  s = checkMemory env s;
                  s = emits [GetLocalTime] s
              in case local_time env of
                   None \<Rightarrow>
                     Running (emits
                       [Serial_println (Str ''Failed to obtain time''),
                        Display_clearBuffer,
                        Display_setFont u8g2_font_ncenB08_tr,
                        Display_drawStr 0 32 ''Syncing Time...'',
                        Display_sendBuffer,
                        Delay 500] s)
                 | Some timeinfo \<Rightarrow>
                     (let s = emits [Aht_getEvent] s;
                          temperature = sensor_temp env;
                          hum = sensor_hum env;
                          s = emits
                            [Serial_print (Str ''Temperature: ''),
                             Serial_print (Flt temperature 2),
                             Serial_print (Str (degree_utf8 @ ''C, Humidity: '')),
                             Serial_print (Flt hum 2),
                             Serial_println (Str ''%'')] s
                      in if isnan temperature \<or> isnan hum then
                           Running (emits
                             [Serial_println (Str ''Error: AHT20 reading invalid!''),
                              Display_clearBuffer,
                              Display_setFont u8g2_font_ncenB08_tr,
                              Display_drawStr 0 15 ''Sensor Error!'',
                              Display_sendBuffer,
                              Delay 2000] s)
                         else
                           (let s = s\<lparr>currentTemperature := temperature\<rparr>;
                                s = s\<lparr>currentHumidity := hum\<rparr>;
                                s = s\<lparr>currentTime :=
                                      printf_0d 2 (tm_hour timeinfo) @ '':'' @
                                      printf_0d 2 (tm_min timeinfo) @ '':'' @
                                      printf_0d 2 (tm_sec timeinfo)\<rparr>;
                                s = s\<lparr>currentDate :=
                                      printf_0d 4 (tm_year timeinfo + 1900) @ ''-'' @
                                      printf_0d 2 (tm_mon timeinfo + 1) @ ''-'' @
                                      printf_0d 2 (tm_mday timeinfo)\<rparr>;
                                s = s\<lparr>firstDataReady := True\<rparr>;
                                s = emits [Display_clearBuffer] s;
                                dateStr =
                                  printf_0d 4 (tm_year timeinfo + 1900) @ ''-'' @
                                  printf_0d 2 (tm_mon timeinfo + 1) @ ''-'' @
                                  printf_0d 2 (tm_mday timeinfo);
                                s = printCentered env dateStr 12 u8g2_font_ncenB08_tr s;
                                timeStr =
                                  printf_0d 2 (tm_hour timeinfo) @ '':'' @
                                  printf_0d 2 (tm_min timeinfo) @ '':'' @
                                  printf_0d 2 (tm_sec timeinfo);
                                s = printCentered env timeStr 38 u8g2_font_ncenB18_tr s;
                                tempHumStr =
                                  printf_1f temperature @ [CHR 0xB0] @ ''C  '' @
                                  printf_1f hum @ ''%'';
                                s = printCentered env tempHumStr 60 u8g2_font_ncenB12_tf s;
                                s = emits
                                  [Display_sendBuffer,
                                   Serial_print (Str ''Time: ''),
                                   Serial_print (Str timeStr),
                                   Serial_print (Str ''  Temp: ''),
                                   Serial_print (Flt temperature 2),
                                   Serial_print (Str '' C  WiFi: ''),
                                   WiFi_status,
                                   Serial_println
                                     (Str (if status_report env = WL_CONNECTED
                                           then ''OK'' else ''LOST'')),
                                   Server_handleClient,
                                   Delay 1000] s
                            in Running s))))"

fun run_ticks :: "tick_input list \<Rightarrow> state \<Rightarrow> outcome" where
  \<comment> \<open>The Arduino core calls \<^verbatim>\<open>loop\<close> again and again; a restart ends the run.\<close>
  "run_ticks [] s = Running s"
| "run_ticks (env # envs) s =
     (case loop env s of Running s' \<Rightarrow> run_ticks envs s' | Restarted s' \<Rightarrow> Restarted s')"

definition shared_status :: "state \<Rightarrow> cfloat \<times> cfloat \<times> string \<times> string" where
  \<comment> \<open>The globals the HTTP handlers read.\<close>
  "shared_status s = (currentTemperature s, currentHumidity s, currentTime s, currentDate s)"

definition events_since :: "state \<Rightarrow> state \<Rightarrow> event list" where
  \<comment> \<open>The calls made between an earlier state and a later one.\<close>
  "events_since s s' = drop (length (trace s)) (trace s')"

subsection \<open>HTTP handlers\<close>

text \<open>
  The request the server is answering, as the handlers read it (\<^verbatim>\<open>server.uri()\<close>,
  \<^verbatim>\<open>server.method()\<close>, \<^verbatim>\<open>server.args()\<close>, \<^verbatim>\<open>server.argName(i)\<close>, \<^verbatim>\<open>server.arg(i)\<close>), and
  the response a handler sends (\<^verbatim>\<open>server.sendHeader\<close>, \<^verbatim>\<open>server.send\<close>).
\<close>

datatype http_method =
    HTTP_DELETE | HTTP_GET | HTTP_HEAD | HTTP_POST | HTTP_PUT | HTTP_CONNECT | HTTP_OPTIONS
  | HTTP_TRACE | HTTP_COPY | HTTP_LOCK | HTTP_MKCOL | HTTP_MOVE | HTTP_PROPFIND
  | HTTP_PROPPATCH | HTTP_SEARCH | HTTP_UNLOCK | HTTP_BIND | HTTP_REBIND | HTTP_UNBIND
  | HTTP_ACL | HTTP_REPORT | HTTP_MKACTIVITY | HTTP_CHECKOUT | HTTP_MERGE | HTTP_MSEARCH
  | HTTP_NOTIFY | HTTP_SUBSCRIBE | HTTP_UNSUBSCRIBE | HTTP_PATCH | HTTP_PURGE
  | HTTP_MKCALENDAR | HTTP_LINK | HTTP_UNLINK | HTTP_SOURCE

record http_request =
  req_uri :: string
  req_method :: http_method
  req_args :: "(string \<times> string) list"

record http_response =
  resp_code :: int
  resp_content_type :: string
  resp_headers :: "(string \<times> string) list"
  resp_body :: string

definition server_sendHeader ::
    "string \<Rightarrow> string \<Rightarrow> (string \<times> string) list \<Rightarrow> (string \<times> string) list" where
  "server_sendHeader name v hs = hs @ [(name, v)]"

definition server_send ::
    "int \<Rightarrow> string \<Rightarrow> string \<Rightarrow> (string \<times> string) list \<Rightarrow> http_response" where
  "server_send code content_type content hs =
     \<lparr> resp_code = code, resp_content_type = content_type, resp_headers = hs,
       resp_body = content \<rparr>"

text \<open>
  The literal text of the page of \<^verbatim>\<open>handleRoot\<close>, one line per \<^verbatim>\<open>html += ...\<close> statement,
  cut where a value is inserted; bytes outside ASCII are the UTF-8 bytes of the source
  file.
\<close>

definition root_html_1 :: string where
  "root_html_1 =
     ''<!DOCTYPE html>\<newline>'' @
     ''<html>\<newline><head>\<newline>'' @
     ''<meta charset=\"UTF-8\">\<newline>'' @
     ''<meta name=\"viewport\" content=\"width=device-width, initial-scale=1.0\">\<newline>'' @
     ''<title>ESP32 '' @ [CHR 0xE6, CHR 0xB8, CHR 0xA9, CHR 0xE6, CHR 0xB9, CHR 0xBF, CHR 0xE5, CHR 0xBA, CHR 0xA6, CHR 0xE7, CHR 0x9B, CHR 0x91, CHR 0xE6, CHR 0x8E, CHR 0xA7] @ ''</title>\<newline>'' @
     ''<style>\<newline>'' @
     ''body { font-family: Arial, sans-serif; margin: 0; padding: 20px; '' @
     ''background: linear-gradient(135deg, #667eea 0%, #764ba2 100%); '' @
     ''min-height: 100vh; display: flex; justify-content: center; align-items: center; }\<newline>'' @
     ''.container { background: white; padding: 30px; border-radius: 20px; '' @
     ''box-shadow: 0 10px 40px rgba(0,0,0,0.2); max-width: 400px; width: 100%; text-align: center; }\<newline>'' @
     ''h1 { color: #333; margin-bottom: 10px; font-size: 28px; }\<newline>'' @
     ''.data-row { display: flex; justify-content: space-around; margin: 20px 0; }\<newline>'' @
     ''.data-item { flex: 1; }\<newline>'' @
     ''.data-value { font-size: 48px; font-weight: bold; margin: 10px 0; }\<newline>'' @
     ''.data-label { font-size: 14px; color: #888; }\<newline>'' @
     ''.hum-color { color: #3498db; }\<newline>'' @
     ''.time { font-size: 24px; color: #666; margin: 10px 0; }\<newline>'' @
     ''.date { font-size: 18px; color: #888; margin-bottom: 20px; }\<newline>'' @
     ''.icon { font-size: 60px; margin-bottom: 10px; }\<newline>'' @
     ''.refresh-info { font-size: 12px; color: #aaa; margin-top: 20px; }\<newline>'' @
     ''.unit { font-size: 24px; }\<newline>'' @
     ''</style>\<newline>'' @
     ''<script>\<newline>'' @
     ''const temperature = ''"

definition root_html_2 :: string where
  "root_html_2 =
     '';\<newline>'' @
     ''let tempColor = '' @ [CHR 0x27, CHR 0x27] @ '';\<newline>'' @
     ''if (temperature < 20) {\<newline>'' @
     ''  tempColor = '' @ [CHR 0x27] @ ''#3498db'' @ [CHR 0x27] @ '';\<newline>'' @
     ''} else if (temperature >= 20 && temperature < 30) {\<newline>'' @
     ''  const ratio = (temperature - 20) / 10;\<newline>'' @
     ''  const r = Math.round(241 + ratio * (230 - 241));\<newline>'' @
     ''  const g = Math.round(196 + ratio * (126 - 196));\<newline>'' @
     ''  const b = Math.round(15 + ratio * (34 - 15));\<newline>'' @
     ''  tempColor = '' @ [CHR 0x27] @ ''rgb('' @ [CHR 0x27] @ '' + r + '' @ [CHR 0x27] @ '','' @ [CHR 0x27] @ '' + g + '' @ [CHR 0x27] @ '','' @ [CHR 0x27] @ '' + b + '' @ [CHR 0x27] @ '')'' @ [CHR 0x27] @ '';\<newline>'' @
     ''} else {\<newline>'' @
     ''  tempColor = '' @ [CHR 0x27] @ ''#e74c3c'' @ [CHR 0x27] @ '';\<newline>'' @
     ''}\<newline>'' @
     ''document.addEventListener('' @ [CHR 0x27] @ ''DOMContentLoaded'' @ [CHR 0x27] @ '', function() {\<newline>'' @
     ''  document.querySelectorAll('' @ [CHR 0x27] @ ''.temp-color'' @ [CHR 0x27] @ '').forEach(el => el.style.color = tempColor);\<newline>'' @
     ''});\<newline>'' @
     ''setTimeout(function(){location.reload();}, 3000);\<newline>'' @
     ''</script>\<newline>'' @
     ''</head>\<newline><body>\<newline>'' @
     ''<div class=\"container\">\<newline>'' @
     ''<div class=\"icon\">'' @ [CHR 0xF0, CHR 0x9F, CHR 0x8C, CHR 0xA1, CHR 0xEF, CHR 0xB8, CHR 0x8F] @ ''</div>\<newline>'' @
     ''<h1>'' @ [CHR 0xE5, CHR 0xAE, CHR 0x9E, CHR 0xE6, CHR 0x97, CHR 0xB6, CHR 0xE6, CHR 0xB8, CHR 0xA9, CHR 0xE6, CHR 0xB9, CHR 0xBF, CHR 0xE5, CHR 0xBA, CHR 0xA6, CHR 0xE7, CHR 0x9B, CHR 0x91, CHR 0xE6, CHR 0x8E, CHR 0xA7] @ ''</h1>\<newline>'' @
     ''<div class=\"date\">''"

definition root_html_3 :: string where
  "root_html_3 =
     ''</div>\<newline>'' @
     ''<div class=\"time\">''"

definition root_html_4 :: string where
  "root_html_4 =
     ''</div>\<newline>'' @
     ''<div class=\"data-row\">\<newline>'' @
     ''<div class=\"data-item\">\<newline>'' @
     ''<div class=\"data-value temp-color\">''"

definition root_html_5 :: string where
  "root_html_5 =
     ''<span class=\"unit\">'' @ [CHR 0xC2, CHR 0xB0] @ ''C</span></div>\<newline>'' @
     ''<div class=\"data-label\">'' @ [CHR 0xE6, CHR 0xB8, CHR 0xA9, CHR 0xE5, CHR 0xBA, CHR 0xA6] @ ''</div>\<newline>'' @
     ''</div>\<newline>'' @
     ''<div class=\"data-item\">\<newline>'' @
     ''<div class=\"data-value hum-color\">''"

definition root_html_6 :: string where
  "root_html_6 =
     ''<span class=\"unit\">%</span></div>\<newline>'' @
     ''<div class=\"data-label\">'' @ [CHR 0xE6, CHR 0xB9, CHR 0xBF, CHR 0xE5, CHR 0xBA, CHR 0xA6] @ ''</div>\<newline>'' @
     ''</div>\<newline>'' @
     ''</div>\<newline>'' @
     ''<div class=\"refresh-info\">'' @ [CHR 0xE9, CHR 0xA1, CHR 0xB5, CHR 0xE9, CHR 0x9D, CHR 0xA2, CHR 0xE6, CHR 0xAF, CHR 0x8F] @ ''3'' @ [CHR 0xE7, CHR 0xA7, CHR 0x92, CHR 0xE8, CHR 0x87, CHR 0xAA, CHR 0xE5, CHR 0x8A, CHR 0xA8, CHR 0xE5, CHR 0x88, CHR 0xB7, CHR 0xE6, CHR 0x96, CHR 0xB0] @ ''</div>\<newline>'' @
     ''</div>\<newline>'' @
     ''</body>\<newline></html>\<newline>''"

definition handleRoot :: "state \<Rightarrow> http_response" where
  "handleRoot s =
     (let hs = server_sendHeader ''Access-Control-Allow-Origin'' ''*'' [];
          hs = server_sendHeader ''Access-Control-Allow-Methods'' ''GET, POST, OPTIONS'' hs;
          hs = server_sendHeader ''Access-Control-Allow-Headers'' ''Content-Type'' hs;
          html = root_html_1 @ String_float (currentTemperature s) 1 @
                 root_html_2 @ currentDate s @
                 root_html_3 @ currentTime s @
                 root_html_4 @ String_float (currentTemperature s) 1 @
                 root_html_5 @ String_float (currentHumidity s) 1 @
                 root_html_6
      in server_send 200 ''text/html'' html hs)"

definition handleTemperature :: "state \<Rightarrow> http_response" where
  "handleTemperature s =
     (let hs = server_sendHeader ''Access-Control-Allow-Origin'' ''*'' [];
          hs = server_sendHeader ''Access-Control-Allow-Methods'' ''GET, POST, OPTIONS'' hs;
          hs = server_sendHeader ''Access-Control-Allow-Headers'' ''Content-Type'' hs;
          tempText = String_float (currentTemperature s) 1 @ degree_utf8 @ ''C''
      in server_send 200 ''text/plain'' tempText hs)"

definition handleHumidity :: "state \<Rightarrow> http_response" where
  "handleHumidity s =
     (let hs = server_sendHeader ''Access-Control-Allow-Origin'' ''*'' [];
          hs = server_sendHeader ''Access-Control-Allow-Methods'' ''GET, POST, OPTIONS'' hs;
          hs = server_sendHeader ''Access-Control-Allow-Headers'' ''Content-Type'' hs;
          humText = String_float (currentHumidity s) 1 @ ''%''
      in server_send 200 ''text/plain'' humText hs)"

definition handleJson :: "state \<Rightarrow> http_response" where
  "handleJson s =
     (let hs = server_sendHeader ''Access-Control-Allow-Origin'' ''*'' [];
          hs = server_sendHeader ''Access-Control-Allow-Methods'' ''GET, POST, OPTIONS'' hs;
          hs = server_sendHeader ''Access-Control-Allow-Headers'' ''Content-Type'' hs;
          json = ''{'';
          json = json @ ''\"temperature\": '' @ String_float (currentTemperature s) 1 @ '','';
          json = json @ ''\"humidity\": '' @ String_float (currentHumidity s) 1 @ '','';
          json = json @ ''\"time\": \"'' @ currentTime s @ ''\",'';
          json = json @ ''\"date\": \"'' @ currentDate s @ ''\",'';
          json = json @ ''\"status\": \"ok\"'';
          json = json @ ''}''
      in server_send 200 ''application/json'' json hs)"

partial_function (option) args_loop :: "http_request \<Rightarrow> u8 \<Rightarrow> string \<Rightarrow> string option" where
  \<comment> \<open>\<^verbatim>\<open>for (uint8_t i = 0; i < server.args(); i++)\<close>: the counter is eight bits wide and
      wraps around, \<^verbatim>\<open>server.args()\<close> is an \<^verbatim>\<open>int\<close>.\<close>
  "args_loop req i message =
     (if uint i < int (length (req_args req))
      then args_loop req (i + 1)
             (message @ '' '' @ fst (req_args req ! unat i) @ '': '' @
              snd (req_args req ! unat i) @ ''\<newline>'')
      else Some message)"

definition handleNotFound :: "http_request \<Rightarrow> http_response option" where
  "handleNotFound req =
     (let message = ''404 Not Found\<newline>\<newline>'';
          message = message @ ''URI: '' @ req_uri req @ ''\<newline>'';
          message = message @ ''Method: '' @
                    (if req_method req = HTTP_GET then ''GET'' else ''POST'') @ ''\<newline>'';
          message = message @ ''Arguments: '' @ String_int (int (length (req_args req))) @
                    ''\<newline>''
      in case args_loop req 0 message of
           None \<Rightarrow> None
         | Some message \<Rightarrow> Some (server_send 404 ''text/plain'' message []))"

subsection \<open>Runs of the network guardian\<close>

fun run_checks :: "tick_input list \<Rightarrow> state \<Rightarrow> outcome" where
  \<comment> \<open>Successive calls of \<^verbatim>\<open>checkWiFiConnection\<close>; a restart ends the run.\<close>
  "run_checks [] s = Running s"
| "run_checks (env # envs) s =
     (case checkWiFiConnection env s of
        Running s' \<Rightarrow> run_checks envs s'
      | Restarted s' \<Rightarrow> Restarted s')"

text \<open>
  What one call of the guardian meets, read off its inputs alone (not off
  \<^verbatim>\<open>reconnectCount\<close>): the throttle did not pass, the link was up, the reconnect
  attempt succeeded, or it failed.
\<close>

datatype check_result = Not_due | Link_up | Reconnected | Reconnect_failed

definition check_result :: "tick_input \<Rightarrow> state \<Rightarrow> check_result" where
  "check_result env s =
     (if \<not> wifiCheckInterval \<le> millis_wifi env - lastWiFiCheck s then Not_due
      else if status_check env = WL_CONNECTED then Link_up
      else if status_after env = WL_CONNECTED then Reconnected
      else Reconnect_failed)"

fun streak_after :: "check_result \<Rightarrow> nat \<Rightarrow> nat" where
  \<comment> \<open>The number of consecutive failed reconnects after a call, given the number before.\<close>
  "streak_after Not_due n = n"
| "streak_after Link_up n = 0"
| "streak_after Reconnected n = 0"
| "streak_after Reconnect_failed n = Suc n"

fun failure_streak :: "tick_input list \<Rightarrow> state \<Rightarrow> nat \<Rightarrow> nat" where
  \<comment> \<open>The number of consecutive failed reconnects at the end of a run.\<close>
  "failure_streak [] s n = n"
| "failure_streak (env # envs) s n =
     (case checkWiFiConnection env s of
        Running s' \<Rightarrow> failure_streak envs s' (streak_after (check_result env s) n)
      | Restarted s' \<Rightarrow> streak_after (check_result env s) n)"

subsection \<open>Auxiliary definitions for the proofs\<close>

fun wait_events :: "tick_input \<Rightarrow> nat \<Rightarrow> event list" where
  \<comment> \<open>The calls of the polling loop.\<close>
  "wait_events env retryTimeout =
     (if status_poll env (10 - retryTimeout) \<noteq> WL_CONNECTED \<and> retryTimeout > 0
      then [WiFi_status, Delay 1000, Serial_print (Str ''.'')] @ wait_events env (retryTimeout - 1)
      else [WiFi_status])"

declare wait_events.simps [simp del]

definition reconnect_events :: "tick_input \<Rightarrow> state \<Rightarrow> event list" where
  \<comment> \<open>The calls of a due check that finds the link down, up to the status read that
      follows the polling loop.\<close>
  "reconnect_events env s =
     [Millis, WiFi_status,
      Serial_println (Str ''WiFi disconnected! Attempting to reconnect...''),
      Display_clearBuffer,
      Display_setFont u8g2_font_ncenB08_tr,
      Display_drawStr 0 15 ''WiFi Lost!'',
      Display_drawStr 0 30 (''Retry: '' @ String_int (sint (reconnectCount s + 1))),
      Display_sendBuffer,
      WiFi_disconnect,
      WiFi_begin ssid password] @ wait_events env 10 @ [WiFi_status]"

definition same_globals :: "state \<Rightarrow> state \<Rightarrow> bool" where
  "same_globals s s' =
     (shared_status s' = shared_status s \<and> firstDataReady s' = firstDataReady s)"

definition cors_headers :: "(string \<times> string) list" where
  \<comment> \<open>The three headers every page handler sends first.\<close>
  "cors_headers =
     [(''Access-Control-Allow-Origin'', ''*''),
      (''Access-Control-Allow-Methods'', ''GET, POST, OPTIONS''),
      (''Access-Control-Allow-Headers'', ''Content-Type'')]"

definition arg_lines :: "(string \<times> string) list \<Rightarrow> string" where
  \<comment> \<open>The lines the 404 page lists the arguments on.\<close>
  "arg_lines args = concat (map (\<lambda>a. '' '' @ fst a @ '': '' @ snd a @ ''\<newline>'') args)"

fun is_drawStr :: "event \<Rightarrow> bool" where
  "is_drawStr (Display_drawStr x y t) = True"
| "is_drawStr e = False"

subsection \<open>Example inputs\<close>

definition sample_input :: tick_input where
  \<comment> \<open>A quiet tick at 14:30:00 on 2025-07-04: no guardian is due, 25.0 degrees, 60.0 percent;
      every character is taken to be 6 pixels wide.\<close>
  "sample_input =
     \<lparr> millis_wifi = 1000, status_check = WL_CONNECTED, status_poll = (\<lambda>k. WL_DISCONNECTED),
       status_after = WL_DISCONNECTED, wifi_localIP = IPAddress 192 168 1 200, config_ok = True,
       millis_ntp = 1000, ntp_time = None, free_heap = 200000, min_free_heap = 150000,
       local_time = Some \<lparr> tm_sec = 0, tm_min = 30, tm_hour = 14, tm_mday = 4, tm_mon = 6,
         tm_year = 125 \<rparr>,
       sensor_temp = Fin 25, sensor_hum = Fin 60,
       utf8_width = (\<lambda>f t. of_nat (6 * length t)), status_report = WL_CONNECTED \<rparr>"

definition nan_input :: tick_input where
  \<comment> \<open>The same tick with a sensor fault.\<close>
  "nan_input = sample_input\<lparr>sensor_temp := NaN\<rparr>"

definition fail_input :: "u32 \<Rightarrow> tick_input" where
  \<comment> \<open>A tick at \<open>m\<close> milliseconds in which the link is down and stays down.\<close>
  "fail_input m = sample_input\<lparr>millis_wifi := m, status_check := WL_DISCONNECTED\<rparr>"

definition reconnect_input :: tick_input where
  \<comment> \<open>A due check that finds the link down; the link is back at the fourth poll.\<close>
  "reconnect_input = sample_input\<lparr>millis_wifi := 30000, status_check := WL_DISCONNECTED,
     status_poll := (\<lambda>k. if k < 3 then WL_DISCONNECTED else WL_CONNECTED),
     status_after := WL_CONNECTED\<rparr>"

definition flap_input :: tick_input where
  \<comment> \<open>A due check that finds the link down; the first poll reads connected, the read
      after the polling loop does not.\<close>
  "flap_input = sample_input\<lparr>millis_wifi := 30000, status_check := WL_DISCONNECTED,
     status_poll := (\<lambda>k. WL_CONNECTED), status_after := WL_DISCONNECTED\<rparr>"

definition warm_state :: state where
  \<comment> \<open>The globals after a successful tick at 14:30:00 on 2025-07-04.\<close>
  "warm_state = initial_state\<lparr> currentTemperature := Fin 25, currentHumidity := Fin 60,
     currentTime := ''14:30:00'', currentDate := ''2025-07-04'', firstDataReady := True \<rparr>"

definition put_request :: http_request where
  \<comment> \<open>A PUT request to a path no handler is registered for.\<close>
  "put_request =
     \<lparr> req_uri = ''/reset'', req_method = HTTP_PUT, req_args = [(''id'', ''7'')] \<rparr>"

definition many_args_request :: http_request where
  \<comment> \<open>A GET request with 256 arguments to a path no handler is registered for.\<close>
  "many_args_request =
     \<lparr> req_uri = ''/missing'', req_method = HTTP_GET, req_args = replicate 256 (''a'', ''1'') \<rparr>"

section \<open>Properties\<close>

lemma trace_emits [simp]: "trace (emits es s) = trace s @ es"
  by (simp add: emits_def)

lemma events_since_append [simp]: "trace s' = trace s @ es \<Longrightarrow> events_since s s' = es"
  by (simp add: events_since_def)

lemma trace_checkMemory:
  "trace (checkMemory env s) = trace s @
     (if free_heap env < 30000
      then [ESP_getFreeHeap, ESP_getMinFreeHeap,
            Serial_print (Str ''WARNING: Low memory! Free: ''),
            Serial_print (ULong (free_heap env)),
            Serial_print (Str '' bytes, Min: ''),
            Serial_print (ULong (min_free_heap env)),
            Serial_println (Str '' bytes''),
            Display_clearBuffer,
            Display_setFont u8g2_font_ncenB08_tr,
            Display_drawStr 0 15 ''Low Memory!'',
            Display_drawStr 0 30 (''Free: '' @ String_ulong (free_heap env div 1024) @ ''KB''),
            Display_sendBuffer,
            Delay 2000]
      else [ESP_getFreeHeap, ESP_getMinFreeHeap])"
  by (simp add: checkMemory_def Let_def)

lemma emits_fields [simp]:
  "currentTemperature (emits es s) = currentTemperature s"
  "currentHumidity (emits es s) = currentHumidity s"
  "currentTime (emits es s) = currentTime s"
  "currentDate (emits es s) = currentDate s"
  "firstDataReady (emits es s) = firstDataReady s"
  "lastWiFiCheck (emits es s) = lastWiFiCheck s"
  "lastNTPCheck (emits es s) = lastNTPCheck s"
  "reconnectCount (emits es s) = reconnectCount s"
  by (simp_all add: emits_def)

lemma emits_emits [simp]: "emits es' (emits es s) = emits (es @ es') s"
  by (simp add: emits_def)

subsection \<open>Memory guardian\<close>

text \<open>
  C7. The memory guardian raises the low-memory warning (the serial warning and the
  "Low Memory!" screen) if and only if the free heap is strictly below 30000 bytes; at
  exactly 30000 bytes it makes its two heap queries and nothing else.
\<close>

theorem checkMemory_warns_iff_below_mark:
  "(Display_drawStr 0 15 ''Low Memory!'' \<in> set (events_since s (checkMemory env s)))
     = (free_heap env < 30000)
   \<and> (Serial_print (Str ''WARNING: Low memory! Free: '')
        \<in> set (events_since s (checkMemory env s)))
     = (free_heap env < 30000)
   \<and> events_since s (checkMemory (env\<lparr>free_heap := 30000\<rparr>) s)
     = [ESP_getFreeHeap, ESP_getMinFreeHeap]"
  by (simp add: trace_checkMemory)

text \<open>
  C5 (as stated, refuted). The claim is that two calls of \<^verbatim>\<open>checkMemory\<close> close together
  sample the free heap at most once. Two calls in a row, with nothing in between, sample
  it twice.
\<close>

theorem checkMemory_twice_counterexample:
  "\<not> count_list (events_since initial_state
        (checkMemory sample_input (checkMemory sample_input initial_state))) ESP_getFreeHeap \<le> 1"
  by (simp add: trace_checkMemory)

text \<open>
  C5 (amended). \<^verbatim>\<open>checkMemory\<close> has no throttle: every call samples the free heap
  exactly once, so two calls in a row sample it exactly twice.
\<close>

theorem checkMemory_samples_every_call:
  "count_list (events_since s (checkMemory env s)) ESP_getFreeHeap = 1
   \<and> count_list (events_since s (checkMemory env' (checkMemory env s))) ESP_getFreeHeap = 2"
  by (simp add: trace_checkMemory)

subsection \<open>Centred text\<close>

lemma sdiv_nonneg: "0 \<le> k \<Longrightarrow> k sdiv 2 = k div (2::int)"
  by (simp add: signed_divide_int_def sgn_if)

text \<open>
  C8. For a text whose measured width \<open>w\<close> satisfies \<open>0 \<le> w \<le> 128\<close>, \<^verbatim>\<open>printCentered\<close>
  sets the font, measures the text and draws it at the horizontal origin
  \<open>x = (128 - w) div 2\<close>, and \<open>0 \<le> x \<le> 128 - w\<close>.
\<close>

theorem printCentered_origin:
  assumes "0 \<le> sint (utf8_width env fnt txt)" and "sint (utf8_width env fnt txt) \<le> 128"
  shows "\<exists>x. events_since s (printCentered env txt y fnt s)
            = [Display_setFont fnt, Display_getUTF8Width txt, Display_drawStr x y txt]
          \<and> sint x = (128 - sint (utf8_width env fnt txt)) div 2
          \<and> 0 \<le> sint x \<and> sint x \<le> 128 - sint (utf8_width env fnt txt)"
proof -
  let ?w = "sint (utf8_width env fnt txt)"
  let ?x = "word_of_int ((128 - ?w) sdiv 2) :: i16"
  have q: "(128 - ?w) sdiv 2 = (128 - ?w) div 2"
    using assms by (simp add: sdiv_nonneg)
  have r: "0 \<le> (128 - ?w) div 2" "(128 - ?w) div 2 \<le> 128 - ?w"
    using assms by auto
  have "sint ?x = (128 - ?w) div 2"
  proof -
    have "- (2 ^ 15) \<le> (128 - ?w) div 2" "(128 - ?w) div 2 < 2 ^ 15"
      using r assms by auto
    then show ?thesis
      unfolding q by (simp add: sint_sbintrunc' signed_take_bit_int_eq_self)
  qed
  moreover have "events_since s (printCentered env txt y fnt s)
      = [Display_setFont fnt, Display_getUTF8Width txt, Display_drawStr ?x y txt]"
    by (simp add: printCentered_def Let_def)
  ultimately show ?thesis using r by auto
qed

text \<open>The time string of eight characters, 48 pixels wide, is drawn at \<open>x = 40\<close>.\<close>

theorem printCentered_origin_witness:
  "0 \<le> sint (utf8_width sample_input u8g2_font_ncenB18_tr ''14:30:00'')
   \<and> sint (utf8_width sample_input u8g2_font_ncenB18_tr ''14:30:00'') \<le> 128
   \<and> sint (utf8_width sample_input u8g2_font_ncenB18_tr ''14:30:00'') = 48
   \<and> (\<exists>x. events_since initial_state
          (printCentered sample_input ''14:30:00'' 38 u8g2_font_ncenB18_tr initial_state)
            = [Display_setFont u8g2_font_ncenB18_tr, Display_getUTF8Width ''14:30:00'',
               Display_drawStr x 38 ''14:30:00'']
          \<and> sint x = 40)"
proof -
  have a: "0 \<le> sint (utf8_width sample_input u8g2_font_ncenB18_tr ''14:30:00'')"
    by (simp add: sample_input_def)
  have b: "sint (utf8_width sample_input u8g2_font_ncenB18_tr ''14:30:00'') \<le> 128"
    by (simp add: sample_input_def)
  have c: "sint (utf8_width sample_input u8g2_font_ncenB18_tr ''14:30:00'') = 48"
    by (simp add: sample_input_def)
  show ?thesis
    using a b c printCentered_origin [OF a b, of initial_state 38] by auto
qed

subsection \<open>The guardians leave the shared status alone\<close>

lemma wait_connected_emits: "wait_connected env n s = emits (wait_events env n) s"
proof (induction env n s rule: wait_connected.induct)
  case (1 env n s)
  show ?case
  proof (cases "status_poll env (10 - n) \<noteq> WL_CONNECTED \<and> n > 0")
    case True
    then show ?thesis
      using 1 [OF refl True]
      by (subst wait_connected.simps, subst wait_events.simps) (simp add: Let_def)
  next
    case False
    then show ?thesis
      by (subst wait_connected.simps, subst wait_events.simps) (auto simp add: Let_def)
  qed
qed

lemma wait_events_no_restart: "ESP_restart \<notin> set (wait_events env n)"
  by (induction env n rule: wait_events.induct) (subst wait_events.simps, auto)

lemma same_globals_simps [simp]:
  "same_globals s s"
  "same_globals s (emits es s') = same_globals s s'"
  "same_globals s (s'\<lparr>lastWiFiCheck := a\<rparr>) = same_globals s s'"
  "same_globals s (s'\<lparr>lastNTPCheck := a\<rparr>) = same_globals s s'"
  "same_globals s (s'\<lparr>reconnectCount := c\<rparr>) = same_globals s s'"
  by (simp_all add: same_globals_def shared_status_def)

lemma checkWiFiConnection_globals:
  "same_globals s (state_of (checkWiFiConnection env s))"
  by (simp add: checkWiFiConnection_def Let_def wait_connected_emits)

lemma checkNTPSync_globals: "same_globals s (checkNTPSync env s') = same_globals s s'"
  by (simp add: checkNTPSync_def Let_def split: option.split)

lemma checkMemory_globals: "same_globals s (checkMemory env s') = same_globals s s'"
  by (simp add: checkMemory_def Let_def)

lemma loop_fault_globals:
  assumes "local_time env = None \<or> isnan (sensor_temp env) \<or> isnan (sensor_hum env)"
  shows "same_globals s (state_of (loop env s))"
proof (cases "checkWiFiConnection env (emits [Esp_task_wdt_reset] s)")
  case (Running s1)
  have "same_globals (emits [Esp_task_wdt_reset] s) s1"
    using checkWiFiConnection_globals [of "emits [Esp_task_wdt_reset] s" env] Running by simp
  then have "same_globals s s1"
    by (simp add: same_globals_def shared_status_def)
  then show ?thesis
    using assms Running
    by (auto simp add: loop_def Let_def checkNTPSync_globals checkMemory_globals
        split: option.split)
next
  case (Restarted s1)
  have "same_globals (emits [Esp_task_wdt_reset] s) s1"
    using checkWiFiConnection_globals [of "emits [Esp_task_wdt_reset] s" env] Restarted by simp
  then have "same_globals s s1"
    by (simp add: same_globals_def shared_status_def)
  then show ?thesis
    using Restarted by (simp add: loop_def Let_def)
qed

text \<open>
  C1. In every tick whose sensor reading is invalid (the temperature or the humidity is
  NaN), the globals the HTTP handlers read, \<^verbatim>\<open>currentTemperature\<close>, \<^verbatim>\<open>currentHumidity\<close>,
  \<^verbatim>\<open>currentTime\<close> and \<^verbatim>\<open>currentDate\<close>, are after the tick what they were before it.
\<close>

theorem loop_invalid_reading_keeps_status:
  assumes "isnan (sensor_temp env) \<or> isnan (sensor_hum env)"
  shows "currentTemperature (state_of (loop env s)) = currentTemperature s
       \<and> currentHumidity (state_of (loop env s)) = currentHumidity s
       \<and> currentTime (state_of (loop env s)) = currentTime s
       \<and> currentDate (state_of (loop env s)) = currentDate s"
  using loop_fault_globals [of env s] assms
  by (simp add: same_globals_def shared_status_def)

text \<open>A sensor fault after a successful tick keeps 25.0, 60.0, 14:30:00 and 2025-07-04.\<close>

theorem loop_invalid_reading_keeps_status_witness:
  "(isnan (sensor_temp nan_input) \<or> isnan (sensor_hum nan_input))
   \<and> currentTemperature (state_of (loop nan_input warm_state)) = Fin 25
   \<and> currentHumidity (state_of (loop nan_input warm_state)) = Fin 60
   \<and> currentTime (state_of (loop nan_input warm_state)) = ''14:30:00''
   \<and> currentDate (state_of (loop nan_input warm_state)) = ''2025-07-04''"
  using loop_invalid_reading_keeps_status [of nan_input warm_state]
  by (simp add: nan_input_def sample_input_def warm_state_def initial_state_def)

subsection \<open>A tick with a sensor fault\<close>

lemma checkWiFiConnection_not_due:
  "\<not> wifiCheckInterval \<le> millis_wifi env - lastWiFiCheck s \<Longrightarrow>
     checkWiFiConnection env s = Running (emits [Millis] s)"
  by (simp add: checkWiFiConnection_def Let_def)

lemma checkNTPSync_not_due:
  "\<not> ntpCheckInterval \<le> millis_ntp env - lastNTPCheck s \<Longrightarrow>
     checkNTPSync env s = emits [Millis] s"
  by (simp add: checkNTPSync_def Let_def)

lemma loop_nan_input_trace:
  "loop nan_input initial_state = Running (emits
     [Esp_task_wdt_reset, Millis, Millis, ESP_getFreeHeap, ESP_getMinFreeHeap, GetLocalTime,
      Aht_getEvent,
      Serial_print (Str ''Temperature: ''),
      Serial_print (Flt NaN 2),
      Serial_print (Str (degree_utf8 @ ''C, Humidity: '')),
      Serial_print (Flt (Fin 60) 2),
      Serial_println (Str ''%''),
      Serial_println (Str ''Error: AHT20 reading invalid!''),
      Display_clearBuffer,
      Display_setFont u8g2_font_ncenB08_tr,
      Display_drawStr 0 15 ''Sensor Error!'',
      Display_sendBuffer,
      Delay 2000] initial_state)"
proof -
  have a: "checkWiFiConnection nan_input (emits [Esp_task_wdt_reset] initial_state)
      = Running (emits [Esp_task_wdt_reset, Millis] initial_state)"
    by (subst checkWiFiConnection_not_due)
      (simp_all add: nan_input_def sample_input_def initial_state_def wifiCheckInterval_def)
  have b: "checkNTPSync nan_input (emits [Esp_task_wdt_reset, Millis] initial_state)
      = emits [Esp_task_wdt_reset, Millis, Millis] initial_state"
    by (subst checkNTPSync_not_due)
      (simp_all add: nan_input_def sample_input_def initial_state_def ntpCheckInterval_def)
  have c: "checkMemory nan_input (emits [Esp_task_wdt_reset, Millis, Millis] initial_state)
      = emits [Esp_task_wdt_reset, Millis, Millis, ESP_getFreeHeap, ESP_getMinFreeHeap] initial_state"
    by (simp add: checkMemory_def Let_def nan_input_def sample_input_def)
  have d: "local_time nan_input = Some \<lparr> tm_sec = 0, tm_min = 30, tm_hour = 14, tm_mday = 4,
      tm_mon = 6, tm_year = 125 \<rparr>" "sensor_temp nan_input = NaN" "sensor_hum nan_input = Fin 60"
    by (simp_all add: nan_input_def sample_input_def)
  show ?thesis
    by (simp add: loop_def Let_def a b c d)
qed

text \<open>
  C3 (as stated, refuted). The claim is that a tick whose sensor reading is NaN still
  drains the pending HTTP work (\<^verbatim>\<open>server.handleClient\<close>) and makes the fixed inter-tick
  sleep. In the tick below the temperature is NaN: the tick feeds the watchdog, runs the
  three guardians, reads the sensor, shows "Sensor Error!", sleeps 2000 ms and returns;
  it calls neither \<^verbatim>\<open>server.handleClient\<close> nor \<^verbatim>\<open>delay(1000)\<close>.
\<close>

theorem loop_nan_tick_counterexample:
  "isnan (sensor_temp nan_input)
   \<and> events_since initial_state (state_of (loop nan_input initial_state)) =
     [Esp_task_wdt_reset, Millis, Millis, ESP_getFreeHeap, ESP_getMinFreeHeap, GetLocalTime,
      Aht_getEvent,
      Serial_print (Str ''Temperature: ''),
      Serial_print (Flt NaN 2),
      Serial_print (Str (degree_utf8 @ ''C, Humidity: '')),
      Serial_print (Flt (Fin 60) 2),
      Serial_println (Str ''%''),
      Serial_println (Str ''Error: AHT20 reading invalid!''),
      Display_clearBuffer,
      Display_setFont u8g2_font_ncenB08_tr,
      Display_drawStr 0 15 ''Sensor Error!'',
      Display_sendBuffer,
      Delay 2000]
   \<and> Server_handleClient \<notin> set (events_since initial_state (state_of (loop nan_input initial_state)))
   \<and> Delay 1000 \<notin> set (events_since initial_state (state_of (loop nan_input initial_state)))"
  by (simp add: loop_nan_input_trace) (simp add: nan_input_def sample_input_def)

lemma checkWiFiConnection_extends:
  "\<exists>es. trace (state_of (checkWiFiConnection env s)) = trace s @ es"
  by (simp add: checkWiFiConnection_def Let_def wait_connected_emits)

lemma checkNTPSync_extends: "\<exists>es. trace (checkNTPSync env s) = trace s @ es"
  by (simp add: checkNTPSync_def Let_def split: option.split)

text \<open>
  C3 (amended). In every tick in which the sensor is read and the reading is NaN (the
  network guardian has not restarted the device and the time is available), the tick
  feeds the watchdog first, then runs the three guardian due-checks
  \<^verbatim>\<open>checkWiFiConnection\<close>, \<^verbatim>\<open>checkNTPSync\<close> and \<^verbatim>\<open>checkMemory\<close> in this order, then reads
  the time and the sensor, reports the fault, shows "Sensor Error!", sleeps 2000 ms and
  returns there: the calls listed are all the calls of the tick, the 2000 ms sleep is
  the last of them and takes the place of the 1000 ms sleep between ticks. The shared
  status and \<^verbatim>\<open>firstDataReady\<close> are left as they were.
\<close>

theorem loop_nan_tick_steps:
  assumes wifi: "checkWiFiConnection env (emits [Esp_task_wdt_reset] s) = Running s1"
    and tme: "local_time env = Some timeinfo"
    and nan: "isnan (sensor_temp env) \<or> isnan (sensor_hum env)"
  shows "\<exists>s' guard. loop env s = Running s'
      \<and> events_since s (checkMemory env (checkNTPSync env s1)) = [Esp_task_wdt_reset] @ guard
      \<and> events_since s s' = [Esp_task_wdt_reset] @ guard @
          [GetLocalTime, Aht_getEvent,
           Serial_print (Str ''Temperature: ''),
           Serial_print (Flt (sensor_temp env) 2),
           Serial_print (Str (degree_utf8 @ ''C, Humidity: '')),
           Serial_print (Flt (sensor_hum env) 2),
           Serial_println (Str ''%''),
           Serial_println (Str ''Error: AHT20 reading invalid!''),
           Display_clearBuffer,
           Display_setFont u8g2_font_ncenB08_tr,
           Display_drawStr 0 15 ''Sensor Error!'',
           Display_sendBuffer,
           Delay 2000]
      \<and> last (trace s') = Delay 2000
      \<and> shared_status s' = shared_status s
      \<and> firstDataReady s' = firstDataReady s"
proof -
  let ?rest = "[GetLocalTime, Aht_getEvent,
      Serial_print (Str ''Temperature: ''),
      Serial_print (Flt (sensor_temp env) 2),
      Serial_print (Str (degree_utf8 @ ''C, Humidity: '')),
      Serial_print (Flt (sensor_hum env) 2),
      Serial_println (Str ''%''),
      Serial_println (Str ''Error: AHT20 reading invalid!''),
      Display_clearBuffer,
      Display_setFont u8g2_font_ncenB08_tr,
      Display_drawStr 0 15 ''Sensor Error!'',
      Display_sendBuffer,
      Delay 2000]"
  let ?s3 = "checkMemory env (checkNTPSync env s1)"
  have run: "loop env s = Running (emits ?rest ?s3)"
    using wifi tme nan by (simp add: loop_def Let_def)
  obtain e1 where e1: "trace s1 = trace s @ [Esp_task_wdt_reset] @ e1"
    using checkWiFiConnection_extends [of env "emits [Esp_task_wdt_reset] s"] wifi by auto
  obtain e2 where e2: "trace (checkNTPSync env s1) = trace s1 @ e2"
    using checkNTPSync_extends by blast
  obtain e3 where e3: "trace ?s3 = trace (checkNTPSync env s1) @ e3"
    using trace_checkMemory [of env "checkNTPSync env s1"] by blast
  let ?guard = "e1 @ e2 @ e3"
  have g: "events_since s ?s3 = [Esp_task_wdt_reset] @ ?guard"
    by (simp add: events_since_def e1 e2 e3)
  have a: "events_since s (emits ?rest ?s3) = [Esp_task_wdt_reset] @ ?guard @ ?rest"
    by (simp add: events_since_def e1 e2 e3)
  have l: "last (trace (emits ?rest ?s3)) = Delay 2000"
    by simp
  have glob: "same_globals s (emits ?rest ?s3)"
    using loop_fault_globals [of env s] nan run by simp
  have sh: "shared_status (emits ?rest ?s3) = shared_status s"
      "firstDataReady (emits ?rest ?s3) = firstDataReady s"
    using glob by (simp_all add: same_globals_def)
  from run g a l sh show ?thesis
    by blast
qed

text \<open>The tick with a NaN temperature, from the initial state.\<close>

theorem loop_nan_tick_steps_witness:
  "checkWiFiConnection nan_input (emits [Esp_task_wdt_reset] initial_state)
     = Running (emits [Esp_task_wdt_reset, Millis] initial_state)
   \<and> local_time nan_input = Some \<lparr> tm_sec = 0, tm_min = 30, tm_hour = 14, tm_mday = 4,
        tm_mon = 6, tm_year = 125 \<rparr>
   \<and> (isnan (sensor_temp nan_input) \<or> isnan (sensor_hum nan_input))
   \<and> (\<exists>s' guard. loop nan_input initial_state = Running s'
      \<and> events_since initial_state
          (checkMemory nan_input
            (checkNTPSync nan_input (emits [Esp_task_wdt_reset, Millis] initial_state)))
         = [Esp_task_wdt_reset] @ guard
      \<and> events_since initial_state s' = [Esp_task_wdt_reset] @ guard @
          [GetLocalTime, Aht_getEvent,
           Serial_print (Str ''Temperature: ''),
           Serial_print (Flt (sensor_temp nan_input) 2),
           Serial_print (Str (degree_utf8 @ ''C, Humidity: '')),
           Serial_print (Flt (sensor_hum nan_input) 2),
           Serial_println (Str ''%''),
           Serial_println (Str ''Error: AHT20 reading invalid!''),
           Display_clearBuffer,
           Display_setFont u8g2_font_ncenB08_tr,
           Display_drawStr 0 15 ''Sensor Error!'',
           Display_sendBuffer,
           Delay 2000]
      \<and> last (trace s') = Delay 2000
      \<and> shared_status s' = shared_status initial_state
      \<and> firstDataReady s' = firstDataReady initial_state)"
proof -
  have a: "checkWiFiConnection nan_input (emits [Esp_task_wdt_reset] initial_state)
      = Running (emits [Esp_task_wdt_reset, Millis] initial_state)"
    by (subst checkWiFiConnection_not_due)
      (simp_all add: nan_input_def sample_input_def initial_state_def wifiCheckInterval_def)
  have b: "local_time nan_input = Some \<lparr> tm_sec = 0, tm_min = 30, tm_hour = 14, tm_mday = 4,
        tm_mon = 6, tm_year = 125 \<rparr>"
    by (simp add: nan_input_def sample_input_def)
  have c: "isnan (sensor_temp nan_input) \<or> isnan (sensor_hum nan_input)"
    by (simp add: nan_input_def sample_input_def)
  show ?thesis
    using a b c loop_nan_tick_steps [OF a b c] by blast
qed

subsection \<open>Network guardian\<close>

lemma reconnect_events_no_restart: "ESP_restart \<notin> set (reconnect_events env s)"
  by (simp add: reconnect_events_def wait_events_no_restart)

lemma checkWiFiConnection_link_up:
  assumes "wifiCheckInterval \<le> millis_wifi env - lastWiFiCheck s" "status_check env = WL_CONNECTED"
  shows "checkWiFiConnection env s =
    Running (emits [Millis, WiFi_status] (s\<lparr>lastWiFiCheck := millis_wifi env, reconnectCount := 0\<rparr>))"
  using assms by (simp add: checkWiFiConnection_def Let_def emits_def)

lemma checkWiFiConnection_reconnected:
  assumes "wifiCheckInterval \<le> millis_wifi env - lastWiFiCheck s" "status_check env \<noteq> WL_CONNECTED"
    "status_after env = WL_CONNECTED"
  shows "checkWiFiConnection env s =
    Running (emits (reconnect_events env s @
        [Serial_println (Str ''\<newline>WiFi reconnected!''),
         Serial_print (Str ''IP: ''),
         WiFi_localIP,
         Serial_println (IP (wifi_localIP env)),
         WiFi_config local_IP gateway subnet primaryDNS secondaryDNS] @
        (if config_ok env then []
         else [Serial_println (Str ''Static IP configuration failed after reconnect'')]))
      (s\<lparr>lastWiFiCheck := millis_wifi env, reconnectCount := 0\<rparr>))"
  using assms
  by (simp add: checkWiFiConnection_def Let_def emits_def wait_connected_emits reconnect_events_def)

lemma checkWiFiConnection_failed:
  assumes "wifiCheckInterval \<le> millis_wifi env - lastWiFiCheck s" "status_check env \<noteq> WL_CONNECTED"
    "status_after env \<noteq> WL_CONNECTED"
  shows "checkWiFiConnection env s =
    (if 5 \<le> sint (reconnectCount s + 1)
     then Restarted (emits (reconnect_events env s @
        [Serial_println (Str ''\<newline>WiFi reconnect failed!''),
         Serial_println (Str ''Max reconnect attempts reached. Restarting ESP32...''),
         Display_clearBuffer,
         Display_setFont u8g2_font_ncenB08_tr,
         Display_drawStr 0 15 ''WiFi Failed!'',
         Display_drawStr 0 30 ''Restarting...'',
         Display_sendBuffer,
         Delay 2000] @ [ESP_restart])
       (s\<lparr>lastWiFiCheck := millis_wifi env, reconnectCount := reconnectCount s + 1\<rparr>))
     else Running (emits (reconnect_events env s @
        [Serial_println (Str ''\<newline>WiFi reconnect failed!'')])
       (s\<lparr>lastWiFiCheck := millis_wifi env, reconnectCount := reconnectCount s + 1\<rparr>)))"
  using assms
  by (simp add: checkWiFiConnection_def Let_def emits_def wait_connected_emits reconnect_events_def
      maxReconnectCount_def)

lemma small_count_cases: "n < 5 \<Longrightarrow> n = 0 \<or> n = 1 \<or> n = 2 \<or> n = 3 \<or> n = (4::nat)"
  by arith

lemma count_succ:
  assumes "n < 5" "c = (of_nat n :: i32)"
  shows "c + 1 = of_nat (Suc n)" "5 \<le> sint (c + 1) \<longleftrightarrow> Suc n = 5" "sint c = int n"
  using small_count_cases [OF assms(1)] assms(2) by auto

lemma check_step:
  assumes n: "n < 5" and c: "reconnectCount s = of_nat n"
  shows "case checkWiFiConnection env s of
      Running s' \<Rightarrow> streak_after (check_result env s) n < 5
        \<and> reconnectCount s' = of_nat (streak_after (check_result env s) n)
        \<and> (\<exists>es. trace s' = trace s @ es \<and> ESP_restart \<notin> set es)
    | Restarted s' \<Rightarrow> streak_after (check_result env s) n = 5
        \<and> (\<exists>es. trace s' = trace s @ es @ [ESP_restart] \<and> ESP_restart \<notin> set es)"
proof (cases "check_result env s")
  case Not_due
  then have "\<not> wifiCheckInterval \<le> millis_wifi env - lastWiFiCheck s"
    by (simp add: check_result_def split: if_splits)
  then show ?thesis
    using n c Not_due by (simp add: checkWiFiConnection_not_due)
next
  case Link_up
  then have "wifiCheckInterval \<le> millis_wifi env - lastWiFiCheck s" "status_check env = WL_CONNECTED"
    by (simp_all add: check_result_def split: if_splits)
  then show ?thesis
    using Link_up by (simp add: checkWiFiConnection_link_up)
next
  case Reconnected
  then have "wifiCheckInterval \<le> millis_wifi env - lastWiFiCheck s" "status_check env \<noteq> WL_CONNECTED"
    "status_after env = WL_CONNECTED"
    by (simp_all add: check_result_def split: if_splits)
  then show ?thesis
    using Reconnected
    by (simp add: checkWiFiConnection_reconnected reconnect_events_no_restart)
next
  case Reconnect_failed
  then have h: "wifiCheckInterval \<le> millis_wifi env - lastWiFiCheck s" "status_check env \<noteq> WL_CONNECTED"
    "status_after env \<noteq> WL_CONNECTED"
    by (simp_all add: check_result_def split: if_splits)
  show ?thesis
  proof (cases "Suc n = 5")
    case True
    then show ?thesis
      using Reconnect_failed count_succ [OF n c]
      by (simp add: checkWiFiConnection_failed [OF h] reconnect_events_no_restart)
  next
    case False
    then have "Suc n < 5" using n by simp
    then show ?thesis
      using False Reconnect_failed count_succ [OF n c]
      by (simp add: checkWiFiConnection_failed [OF h] reconnect_events_no_restart)
  qed
qed

lemma run_checks_streak:
  assumes "n < 5" "reconnectCount s = of_nat n"
  shows "case run_checks envs s of
      Running s' \<Rightarrow> failure_streak envs s n < 5
        \<and> reconnectCount s' = of_nat (failure_streak envs s n)
        \<and> (\<exists>es. trace s' = trace s @ es \<and> ESP_restart \<notin> set es)
    | Restarted s' \<Rightarrow> failure_streak envs s n = 5
        \<and> (\<exists>es. trace s' = trace s @ es @ [ESP_restart] \<and> ESP_restart \<notin> set es)"
  using assms
proof (induction envs arbitrary: s n)
  case Nil
  then show ?case by simp
next
  case (Cons env envs)
  show ?case
  proof (cases "checkWiFiConnection env s")
    case (Running s1)
    from check_step [OF Cons.prems, of env] Running
    have a: "streak_after (check_result env s) n < 5"
      and b: "reconnectCount s1 = of_nat (streak_after (check_result env s) n)"
      and c: "\<exists>es. trace s1 = trace s @ es \<and> ESP_restart \<notin> set es"
      by simp_all
    from c obtain es where es: "trace s1 = trace s @ es" "ESP_restart \<notin> set es" by blast
    show ?thesis
      using Cons.IH [OF a b] Running es
      by (auto split: outcome.splits)
  next
    case (Restarted s1)
    then show ?thesis
      using check_step [OF Cons.prems, of env] by simp
  qed
qed

text \<open>
  C2. Over every sequence of calls of the network guardian that starts with
  \<^verbatim>\<open>reconnectCount = 0\<close>: as long as the run goes on, fewer than 5 reconnects have failed
  in a row, \<^verbatim>\<open>reconnectCount\<close> is that number and \<^verbatim>\<open>ESP.restart\<close> has not been called;
  the run ends in a restart exactly when the fifth consecutive failure occurs, and then
  \<^verbatim>\<open>ESP.restart\<close> has been called exactly once, as the last call.
\<close>

theorem guardian_restart_at_fifth_failure:
  assumes "reconnectCount s = 0"
  shows "case run_checks envs s of
      Running s' \<Rightarrow> failure_streak envs s 0 < 5
        \<and> sint (reconnectCount s') = int (failure_streak envs s 0)
        \<and> ESP_restart \<notin> set (events_since s s')
    | Restarted s' \<Rightarrow> failure_streak envs s 0 = 5
        \<and> count_list (events_since s s') ESP_restart = 1
        \<and> last (events_since s s') = ESP_restart"
proof -
  have c: "reconnectCount s = of_nat 0" using assms by simp
  show ?thesis
  proof (cases "run_checks envs s")
    case (Running s')
    with run_checks_streak [OF _ c, of envs]
    have "failure_streak envs s 0 < 5"
      "reconnectCount s' = of_nat (failure_streak envs s 0)"
      "\<exists>es. trace s' = trace s @ es \<and> ESP_restart \<notin> set es"
      by simp_all
    then show ?thesis
      using Running count_succ(3) [of "failure_streak envs s 0" "reconnectCount s'"]
      by auto
  next
    case (Restarted s')
    with run_checks_streak [OF _ c, of envs]
    have "failure_streak envs s 0 = 5"
      "\<exists>es. trace s' = trace s @ es @ [ESP_restart] \<and> ESP_restart \<notin> set es"
      by simp_all
    then show ?thesis
      using Restarted by (auto simp add: count_list_0_iff)
  qed
qed

lemma fail_input_fields:
  "millis_wifi (fail_input m) = m"
  "status_check (fail_input m) \<noteq> WL_CONNECTED"
  "status_after (fail_input m) \<noteq> WL_CONNECTED"
  by (simp_all add: fail_input_def sample_input_def)

lemma fail_step:
  assumes "wifiCheckInterval \<le> m - lastWiFiCheck s"
  shows "check_result (fail_input m) s = Reconnect_failed"
    and "\<not> 5 \<le> sint (reconnectCount s + 1) \<Longrightarrow> \<exists>s'. checkWiFiConnection (fail_input m) s = Running s'
        \<and> lastWiFiCheck s' = m \<and> reconnectCount s' = reconnectCount s + 1"
    and "5 \<le> sint (reconnectCount s + 1) \<Longrightarrow> \<exists>s'. checkWiFiConnection (fail_input m) s = Restarted s'"
  using assms checkWiFiConnection_failed [of "fail_input m" s]
  by (simp_all add: fail_input_fields check_result_def)

lemma four_failures:
  "failure_streak [fail_input 30000, fail_input 60000, fail_input 90000, fail_input 120000]
     initial_state 0 = 4"
proof -
  have i0: "lastWiFiCheck initial_state = 0" "reconnectCount initial_state = 0"
    by (simp_all add: initial_state_def)
  obtain s1 where s1: "checkWiFiConnection (fail_input 30000) initial_state = Running s1"
      "lastWiFiCheck s1 = 30000" "reconnectCount s1 = 1"
    using fail_step(2) [of 30000 initial_state] by (auto simp add: i0 wifiCheckInterval_def)
  obtain s2 where s2: "checkWiFiConnection (fail_input 60000) s1 = Running s2"
      "lastWiFiCheck s2 = 60000" "reconnectCount s2 = 2"
    using fail_step(2) [of 60000 s1] by (auto simp add: s1 wifiCheckInterval_def)
  obtain s3 where s3: "checkWiFiConnection (fail_input 90000) s2 = Running s3"
      "lastWiFiCheck s3 = 90000" "reconnectCount s3 = 3"
    using fail_step(2) [of 90000 s2] by (auto simp add: s2 wifiCheckInterval_def)
  obtain s4 where s4: "checkWiFiConnection (fail_input 120000) s3 = Running s4"
      "lastWiFiCheck s4 = 120000" "reconnectCount s4 = 4"
    using fail_step(2) [of 120000 s3] by (auto simp add: s3 wifiCheckInterval_def)
  have r: "check_result (fail_input 30000) initial_state = Reconnect_failed"
      "check_result (fail_input 60000) s1 = Reconnect_failed"
      "check_result (fail_input 90000) s2 = Reconnect_failed"
      "check_result (fail_input 120000) s3 = Reconnect_failed"
    by (simp_all add: fail_step(1) i0 s1 s2 s3 wifiCheckInterval_def)
  show ?thesis
    by (simp add: s1 s2 s3 s4 r)
qed

lemma five_failures:
  "failure_streak [fail_input 30000, fail_input 60000, fail_input 90000, fail_input 120000,
     fail_input 150000] initial_state 0 = 5"
proof -
  have i0: "lastWiFiCheck initial_state = 0" "reconnectCount initial_state = 0"
    by (simp_all add: initial_state_def)
  obtain s1 where s1: "checkWiFiConnection (fail_input 30000) initial_state = Running s1"
      "lastWiFiCheck s1 = 30000" "reconnectCount s1 = 1"
    using fail_step(2) [of 30000 initial_state] by (auto simp add: i0 wifiCheckInterval_def)
  obtain s2 where s2: "checkWiFiConnection (fail_input 60000) s1 = Running s2"
      "lastWiFiCheck s2 = 60000" "reconnectCount s2 = 2"
    using fail_step(2) [of 60000 s1] by (auto simp add: s1 wifiCheckInterval_def)
  obtain s3 where s3: "checkWiFiConnection (fail_input 90000) s2 = Running s3"
      "lastWiFiCheck s3 = 90000" "reconnectCount s3 = 3"
    using fail_step(2) [of 90000 s2] by (auto simp add: s2 wifiCheckInterval_def)
  obtain s4 where s4: "checkWiFiConnection (fail_input 120000) s3 = Running s4"
      "lastWiFiCheck s4 = 120000" "reconnectCount s4 = 4"
    using fail_step(2) [of 120000 s3] by (auto simp add: s3 wifiCheckInterval_def)
  obtain s5 where s5: "checkWiFiConnection (fail_input 150000) s4 = Restarted s5"
    using fail_step(3) [of 150000 s4] by (auto simp add: s4 wifiCheckInterval_def)
  have r: "check_result (fail_input 30000) initial_state = Reconnect_failed"
      "check_result (fail_input 60000) s1 = Reconnect_failed"
      "check_result (fail_input 90000) s2 = Reconnect_failed"
      "check_result (fail_input 120000) s3 = Reconnect_failed"
      "check_result (fail_input 150000) s4 = Reconnect_failed"
    by (simp_all add: fail_step(1) i0 s1 s2 s3 s4 wifiCheckInterval_def)
  show ?thesis
    by (simp add: s1 s2 s3 s4 s5 r)
qed

text \<open>
  Due checks every 30 seconds with the link down: four failures leave the device running
  with \<^verbatim>\<open>reconnectCount = 4\<close>, the fifth restarts it.
\<close>

theorem guardian_restart_at_fifth_failure_witness:
  "reconnectCount initial_state = 0
   \<and> (\<exists>s'. run_checks [fail_input 30000, fail_input 60000, fail_input 90000, fail_input 120000]
          initial_state = Running s'
        \<and> sint (reconnectCount s') = 4
        \<and> ESP_restart \<notin> set (events_since initial_state s'))
   \<and> (\<exists>s'. run_checks [fail_input 30000, fail_input 60000, fail_input 90000, fail_input 120000,
          fail_input 150000] initial_state = Restarted s'
        \<and> count_list (events_since initial_state s') ESP_restart = 1
        \<and> last (events_since initial_state s') = ESP_restart)"
proof -
  have z: "reconnectCount initial_state = 0"
    by (simp add: initial_state_def)
  have four: "\<exists>s'. run_checks [fail_input 30000, fail_input 60000, fail_input 90000,
      fail_input 120000] initial_state = Running s'
        \<and> sint (reconnectCount s') = 4
        \<and> ESP_restart \<notin> set (events_since initial_state s')"
    using guardian_restart_at_fifth_failure [OF z,
        of "[fail_input 30000, fail_input 60000, fail_input 90000, fail_input 120000]"]
    by (cases "run_checks [fail_input 30000, fail_input 60000, fail_input 90000,
      fail_input 120000] initial_state") (simp_all del: failure_streak.simps run_checks.simps add: four_failures)
  have five: "\<exists>s'. run_checks [fail_input 30000, fail_input 60000, fail_input 90000,
      fail_input 120000, fail_input 150000] initial_state = Restarted s'
        \<and> count_list (events_since initial_state s') ESP_restart = 1
        \<and> last (events_since initial_state s') = ESP_restart"
    using guardian_restart_at_fifth_failure [OF z,
        of "[fail_input 30000, fail_input 60000, fail_input 90000, fail_input 120000,
          fail_input 150000]"]
    by (cases "run_checks [fail_input 30000, fail_input 60000, fail_input 90000,
      fail_input 120000, fail_input 150000] initial_state") (simp_all del: failure_streak.simps run_checks.simps add: five_failures)
  show ?thesis using z four five by blast
qed

lemma wait_events_delays: "count_list (wait_events env n) (Delay 1000) \<le> n"
proof (induction env n rule: wait_events.induct)
  case (1 env n)
  show ?case
  proof (cases "status_poll env (10 - n) \<noteq> WL_CONNECTED \<and> n > 0")
    case True
    then show ?thesis
      using 1 [OF True] by (subst wait_events.simps) auto
  next
    case False
    then show ?thesis
      by (subst wait_events.simps) auto
  qed
qed

lemma wait_events_no_config: "WiFi_config a b c d e \<notin> set (wait_events env n)"
  by (induction env n rule: wait_events.induct) (subst wait_events.simps, auto)

lemma reconnect_events_no_config: "WiFi_config a b c d e \<notin> set (reconnect_events env s)"
  by (simp add: reconnect_events_def wait_events_no_config)

lemma wait_events_connected_at_once:
  "status_poll env (10 - n) = WL_CONNECTED \<Longrightarrow> wait_events env n = [WiFi_status]"
  by (subst wait_events.simps) simp

text \<open>
  C6 (as stated, refuted). The claim is that the guardian resets \<^verbatim>\<open>reconnectCount\<close> and
  re-applies the static configuration whenever the status becomes connected within the
  polling window. In the due check below the link is down, the first poll of the window
  reads \<^verbatim>\<open>WL_CONNECTED\<close> and ends the loop, and the status read that follows the loop reads
  \<^verbatim>\<open>WL_DISCONNECTED\<close>: the guardian counts a failed attempt (\<^verbatim>\<open>reconnectCount\<close> becomes 1)
  and does not call \<^verbatim>\<open>WiFi.config\<close>.
\<close>

theorem reconnect_flap_counterexample:
  "wifiCheckInterval \<le> millis_wifi flap_input - lastWiFiCheck initial_state
   \<and> status_check flap_input = WL_DISCONNECTED
   \<and> status_poll flap_input 0 = WL_CONNECTED
   \<and> checkWiFiConnection flap_input initial_state = Running
       (emits
         [Millis, WiFi_status,
          Serial_println (Str ''WiFi disconnected! Attempting to reconnect...''),
          Display_clearBuffer,
          Display_setFont u8g2_font_ncenB08_tr,
          Display_drawStr 0 15 ''WiFi Lost!'',
          Display_drawStr 0 30 ''Retry: 1'',
          Display_sendBuffer,
          WiFi_disconnect,
          WiFi_begin ssid password,
          WiFi_status,
          WiFi_status,
          Serial_println (Str ''\<newline>WiFi reconnect failed!'')]
         (initial_state\<lparr>lastWiFiCheck := 30000, reconnectCount := 1\<rparr>))
   \<and> reconnectCount (state_of (checkWiFiConnection flap_input initial_state)) \<noteq> 0
   \<and> WiFi_config local_IP gateway subnet primaryDNS secondaryDNS
       \<notin> set (trace (state_of (checkWiFiConnection flap_input initial_state)))"
proof -
  have a: "wifiCheckInterval \<le> millis_wifi flap_input - lastWiFiCheck initial_state"
    by (simp add: flap_input_def sample_input_def initial_state_def wifiCheckInterval_def)
  have b: "status_check flap_input \<noteq> WL_CONNECTED" "status_after flap_input \<noteq> WL_CONNECTED"
      "status_check flap_input = WL_DISCONNECTED" "status_poll flap_input 0 = WL_CONNECTED"
      "millis_wifi flap_input = 30000"
    by (simp_all add: flap_input_def sample_input_def)
  have w: "wait_events flap_input 10 = [WiFi_status]"
    by (rule wait_events_connected_at_once) (simp add: flap_input_def sample_input_def)
  have r: "String_int 1 = ''1''"
    by code_simp
  have i: "reconnectCount initial_state = 0" "trace initial_state = []"
    by (simp_all add: initial_state_def)
  have run: "checkWiFiConnection flap_input initial_state = Running
       (emits
         [Millis, WiFi_status,
          Serial_println (Str ''WiFi disconnected! Attempting to reconnect...''),
          Display_clearBuffer,
          Display_setFont u8g2_font_ncenB08_tr,
          Display_drawStr 0 15 ''WiFi Lost!'',
          Display_drawStr 0 30 ''Retry: 1'',
          Display_sendBuffer,
          WiFi_disconnect,
          WiFi_begin ssid password,
          WiFi_status,
          WiFi_status,
          Serial_println (Str ''\<newline>WiFi reconnect failed!'')]
         (initial_state\<lparr>lastWiFiCheck := 30000, reconnectCount := 1\<rparr>))"
    by (simp add: checkWiFiConnection_failed [OF a b(1) b(2)] reconnect_events_def w b i r)
  show ?thesis
    using a b(3,4) by (simp add: run i)
qed

text \<open>
  C6 (amended). The outcome of a bounded reconnect attempt (a due check that finds the
  link down; at most 10 waits of one second) is decided by the status read that follows
  the polling loop, not by the polls. When that read is \<^verbatim>\<open>WL_CONNECTED\<close>, the guardian
  returns without a restart, with \<^verbatim>\<open>reconnectCount = 0\<close>, and after \<^verbatim>\<open>WiFi.begin\<close> it has
  called \<^verbatim>\<open>WiFi.config\<close> with the static address 192.168.1.200, gateway 192.168.1.1,
  subnet 255.255.255.0 and DNS servers 192.168.1.1 and 8.8.8.8. When it is not,
  whatever the polls have read, \<^verbatim>\<open>reconnectCount\<close> is incremented and \<^verbatim>\<open>WiFi.config\<close> is
  not called.
\<close>

theorem reconnect_outcome_follows_final_read:
  assumes due: "wifiCheckInterval \<le> millis_wifi env - lastWiFiCheck s"
    and down: "status_check env \<noteq> WL_CONNECTED"
  shows "if status_after env = WL_CONNECTED
     then \<exists>s' before after.
        checkWiFiConnection env s = Running s'
        \<and> reconnectCount s' = 0
        \<and> events_since s s' = before @
            [WiFi_config (IPAddress 192 168 1 200) (IPAddress 192 168 1 1)
               (IPAddress 255 255 255 0) (IPAddress 192 168 1 1) (IPAddress 8 8 8 8)] @ after
        \<and> WiFi_begin ssid password \<in> set before
        \<and> count_list before (Delay 1000) \<le> 10
        \<and> WiFi_config (IPAddress 192 168 1 200) (IPAddress 192 168 1 1)
               (IPAddress 255 255 255 0) (IPAddress 192 168 1 1) (IPAddress 8 8 8 8)
            \<notin> set before
        \<and> ESP_restart \<notin> set (events_since s s')
     else reconnectCount (state_of (checkWiFiConnection env s)) = reconnectCount s + 1
        \<and> WiFi_config (IPAddress 192 168 1 200) (IPAddress 192 168 1 1)
               (IPAddress 255 255 255 0) (IPAddress 192 168 1 1) (IPAddress 8 8 8 8)
            \<notin> set (events_since s (state_of (checkWiFiConnection env s)))"
proof (cases "status_after env = WL_CONNECTED")
  case True
  let ?before = "reconnect_events env s @
        [Serial_println (Str ''\<newline>WiFi reconnected!''),
         Serial_print (Str ''IP: ''),
         WiFi_localIP,
         Serial_println (IP (wifi_localIP env))]"
  let ?after = "if config_ok env then []
         else [Serial_println (Str ''Static IP configuration failed after reconnect'')]"
  let ?s' = "emits (?before @ [WiFi_config local_IP gateway subnet primaryDNS secondaryDNS] @ ?after)
      (s\<lparr>lastWiFiCheck := millis_wifi env, reconnectCount := 0\<rparr>)"
  let ?cfg = "WiFi_config (IPAddress 192 168 1 200) (IPAddress 192 168 1 1)
             (IPAddress 255 255 255 0) (IPAddress 192 168 1 1) (IPAddress 8 8 8 8)"
  have run: "checkWiFiConnection env s = Running ?s'"
    using checkWiFiConnection_reconnected [OF due down True] by simp
  have cnt: "count_list ?before (Delay 1000) \<le> 10"
    using wait_events_delays [of env 10] by (simp add: reconnect_events_def)
  have ev: "events_since s ?s' = ?before @ [?cfg] @ ?after"
    by (simp add: events_since_def emits_def local_IP_def gateway_def subnet_def
        primaryDNS_def secondaryDNS_def)
  have c0: "reconnectCount ?s' = 0"
    by simp
  have bg: "WiFi_begin ssid password \<in> set ?before"
    by (simp add: reconnect_events_def)
  have nb: "?cfg \<notin> set ?before"
    by (simp add: reconnect_events_no_config)
  have nr: "ESP_restart \<notin> set (events_since s ?s')"
    unfolding ev by (simp add: reconnect_events_no_restart)
  from run c0 ev bg cnt nb nr have "\<exists>s' before after.
        checkWiFiConnection env s = Running s'
        \<and> reconnectCount s' = 0
        \<and> events_since s s' = before @ [?cfg] @ after
        \<and> WiFi_begin ssid password \<in> set before
        \<and> count_list before (Delay 1000) \<le> 10
        \<and> ?cfg \<notin> set before
        \<and> ESP_restart \<notin> set (events_since s s')"
    by blast
  then show ?thesis using True by simp
next
  case False
  have "reconnectCount (state_of (checkWiFiConnection env s)) = reconnectCount s + 1"
    by (simp add: checkWiFiConnection_failed [OF due down False])
  moreover have "WiFi_config a b c d e \<notin> set (events_since s (state_of (checkWiFiConnection env s)))"
    for a b c d e
    by (simp add: checkWiFiConnection_failed [OF due down False] events_since_def emits_def
        reconnect_events_no_config)
  ultimately show ?thesis using False by simp
qed

text \<open>A reconnect that succeeds at the fourth poll, from the initial state.\<close>

theorem reconnect_outcome_follows_final_read_witness:
  "wifiCheckInterval \<le> millis_wifi reconnect_input - lastWiFiCheck initial_state
   \<and> status_check reconnect_input \<noteq> WL_CONNECTED
   \<and> status_after reconnect_input = WL_CONNECTED
   \<and> (\<exists>s' before after.
      checkWiFiConnection reconnect_input initial_state = Running s'
      \<and> reconnectCount s' = 0
      \<and> events_since initial_state s' = before @
          [WiFi_config (IPAddress 192 168 1 200) (IPAddress 192 168 1 1)
             (IPAddress 255 255 255 0) (IPAddress 192 168 1 1) (IPAddress 8 8 8 8)] @ after
      \<and> WiFi_begin ssid password \<in> set before
      \<and> count_list before (Delay 1000) \<le> 10
      \<and> WiFi_config (IPAddress 192 168 1 200) (IPAddress 192 168 1 1)
             (IPAddress 255 255 255 0) (IPAddress 192 168 1 1) (IPAddress 8 8 8 8) \<notin> set before
      \<and> ESP_restart \<notin> set (events_since initial_state s'))"
proof -
  have a: "wifiCheckInterval \<le> millis_wifi reconnect_input - lastWiFiCheck initial_state"
    by (simp add: reconnect_input_def sample_input_def initial_state_def wifiCheckInterval_def)
  have b: "status_check reconnect_input \<noteq> WL_CONNECTED"
    by (simp add: reconnect_input_def sample_input_def)
  have c: "status_after reconnect_input = WL_CONNECTED"
    by (simp add: reconnect_input_def sample_input_def)
  show ?thesis
    using a b c reconnect_outcome_follows_final_read [OF a b] by simp
qed

subsection \<open>HTTP handlers\<close>

lemma String_float_examples:
  "String_float (Fin 0) (Suc 0) = ''0.0''"
  "String_float (Fin 25) (Suc 0) = ''25.0''"
  "String_float (Fin 60) (Suc 0) = ''60.0''"
  by code_simp+

text \<open>
  C4 (as stated, refuted). With 25.0 degrees, 60.0 percent, 14:30:00 and 2025-07-04 stored,
  the body \<^verbatim>\<open>handleJson\<close> sends is not the text of the claim: the handler writes a space
  after the colon of every key.
\<close>

theorem handleJson_scenario_counterexample:
  "resp_body (handleJson warm_state) \<noteq>
     ''{\"temperature\":25.0,\"humidity\":60.0,\"time\":\"14:30:00\",\"date\":\"2025-07-04\",\"status\":\"ok\"}''"
  by (simp add: handleJson_def Let_def server_send_def warm_state_def String_float_examples)

text \<open>
  C4 (amended). With temperature 25.0, humidity 60.0, time "14:30:00" and date
  "2025-07-04" stored, \<^verbatim>\<open>handleJson\<close> responds with status 200, content type
  application/json, the three CORS headers and exactly the body
  \<^verbatim>\<open>{"temperature": 25.0,"humidity": 60.0,"time": "14:30:00","date": "2025-07-04","status": "ok"}\<close>.
\<close>

theorem handleJson_scenario:
  "handleJson (s\<lparr>currentTemperature := Fin 25, currentHumidity := Fin 60,
       currentTime := ''14:30:00'', currentDate := ''2025-07-04''\<rparr>) =
     \<lparr> resp_code = 200, resp_content_type = ''application/json'',
       resp_headers =
         [(''Access-Control-Allow-Origin'', ''*''),
          (''Access-Control-Allow-Methods'', ''GET, POST, OPTIONS''),
          (''Access-Control-Allow-Headers'', ''Content-Type'')],
       resp_body =
         ''{\"temperature\": 25.0,\"humidity\": 60.0,\"time\": \"14:30:00\",\"date\": \"2025-07-04\",\"status\": \"ok\"}'' \<rparr>"
  by (simp add: handleJson_def Let_def server_send_def server_sendHeader_def String_float_examples)

lemma args_loop_terminates:
  assumes "length (req_args req) \<le> 255" "unat i \<le> length (req_args req)"
  shows "args_loop req i message = Some (message @ arg_lines (drop (unat i) (req_args req)))"
  using assms(2)
proof (induction "length (req_args req) - unat i" arbitrary: i message)
  case 0
  then have "unat i = length (req_args req)" by simp
  then have "\<not> uint i < int (length (req_args req))"
    unfolding uint_nat by (simp only: of_nat_less_iff)
  then show ?case
    using \<open>unat i = length (req_args req)\<close>
    by (subst args_loop.simps) (simp add: arg_lines_def)
next
  case (Suc k)
  then have lt: "unat i < length (req_args req)" by simp
  then have lt': "uint i < int (length (req_args req))"
    unfolding uint_nat by (simp only: of_nat_less_iff)
  have "unat i < 255" using lt assms(1) by simp
  then have nxt: "unat (i + 1) = Suc (unat i)"
    by (simp add: unat_word_ariths)
  have k: "k = length (req_args req) - unat (i + 1)" using Suc.hyps(2) nxt by simp
  have le: "unat (i + 1) \<le> length (req_args req)" using nxt lt by simp
  have d: "drop (unat i) (req_args req) = req_args req ! unat i # drop (Suc (unat i)) (req_args req)"
    using lt by (simp add: Cons_nth_drop_Suc)
  show ?case
    by (subst args_loop.simps) (simp add: lt' Suc.hyps(1) [OF k le] nxt d arg_lines_def)
qed

lemma args_loop_Some_short:
  assumes "args_loop req i message = Some y"
  shows "length (req_args req) < 256"
proof (induction rule: args_loop.raw_induct)
  case (1 args_loop req i message y)
  show ?case
  proof (cases "uint i < int (length (req_args req))")
    case True
    let ?m = "message @ '' '' @ fst (req_args req ! unat i) @ '': '' @
      snd (req_args req ! unat i) @ ''\<newline>''"
    have a: "args_loop req (i + 1) ?m = Some y"
      using 1(2) True by simp
    show ?thesis by (rule 1(1) [OF a])
  next
    case False
    have "unat i < 256" using unsigned_less [of i, where ?'a = nat] by simp
    moreover have "\<not> unat i < length (req_args req)"
      using False unfolding uint_nat by (simp only: of_nat_less_iff not_False_eq_True)
    ultimately show ?thesis by simp
  qed
qed (rule assms)

lemma args_loop_diverges:
  assumes "256 \<le> length (req_args req)"
  shows "args_loop req i message = None"
proof (cases "args_loop req i message")
  case None
  then show ?thesis .
next
  case (Some y)
  then show ?thesis using args_loop_Some_short [OF Some] assms by simp
qed

text \<open>
  The response of \<^verbatim>\<open>handleNotFound\<close>, for every request: with at most 255 arguments a 404
  whose Method line is "Method: GET" exactly when the request method is \<^verbatim>\<open>HTTP_GET\<close> and
  "Method: POST" for every other method; with 256 arguments or more no response at all.
\<close>

theorem handleNotFound_method_line:
  "handleNotFound req =
     (if length (req_args req) \<le> 255 then Some
        \<lparr> resp_code = 404, resp_content_type = ''text/plain'', resp_headers = [],
          resp_body =
            ''404 Not Found\<newline>\<newline>'' @
            ''URI: '' @ req_uri req @ ''\<newline>'' @
            ''Method: '' @ (if req_method req = HTTP_GET then ''GET'' else ''POST'') @
            ''\<newline>'' @
            ''Arguments: '' @ String_int (int (length (req_args req))) @ ''\<newline>'' @
            arg_lines (req_args req) \<rparr>
      else None)"
proof (cases "length (req_args req) \<le> 255")
  case True
  then show ?thesis
    using args_loop_terminates [OF True, of 0]
    by (simp add: handleNotFound_def Let_def server_send_def)
next
  case False
  then have "256 \<le> length (req_args req)" by simp
  then show ?thesis
    using False by (simp add: handleNotFound_def Let_def args_loop_diverges)
qed

text \<open>A PUT request is echoed as POST.\<close>

theorem handleNotFound_method_line_witness:
  "length (req_args put_request) \<le> 255
   \<and> handleNotFound put_request = Some
     \<lparr> resp_code = 404, resp_content_type = ''text/plain'', resp_headers = [],
       resp_body = ''404 Not Found\<newline>\<newline>URI: /reset\<newline>Method: POST\<newline>Arguments: 1\<newline> id: 7\<newline>'' \<rparr>"
proof -
  have a: "length (req_args put_request) \<le> 255"
    by (simp add: put_request_def)
  have b: "String_int 1 = ''1''"
    by code_simp
  show ?thesis
    using a handleNotFound_method_line [of put_request]
    by (simp add: put_request_def arg_lines_def b)
qed

text \<open>
  C10 (the code departs from it). The claim gives every request to an unregistered path
  a 404 whose Method line echoes GET for a GET request. For a GET request with 256
  arguments the loop over the arguments never ends (its counter is a \<^verbatim>\<open>uint8_t\<close>, always
  below the argument count), so \<^verbatim>\<open>handleNotFound\<close> sends no response.
\<close>

theorem handleNotFound_many_arguments:
  "req_method many_args_request = HTTP_GET
   \<and> length (req_args many_args_request) = 256
   \<and> handleNotFound many_args_request = None"
proof -
  have l: "length (req_args many_args_request) = 256"
    by (simp add: many_args_request_def)
  then have "args_loop many_args_request i message = None" for i message
    by (intro args_loop_diverges) simp
  then show ?thesis
    using l by (simp add: handleNotFound_def Let_def many_args_request_def)
qed

lemma loop_firstDataReady:
  "firstDataReady (state_of (loop env s)) \<or> same_globals s (state_of (loop env s))"
proof (cases "local_time env = None \<or> isnan (sensor_temp env) \<or> isnan (sensor_hum env)")
  case True
  then show ?thesis using loop_fault_globals by blast
next
  case False
  then obtain timeinfo where t: "local_time env = Some timeinfo" by auto
  show ?thesis
  proof (cases "checkWiFiConnection env (emits [Esp_task_wdt_reset] s)")
    case (Running s1)
    then show ?thesis
      using False t
      by (simp add: loop_def Let_def printCentered_def)
  next
    case (Restarted s1)
    have "same_globals (emits [Esp_task_wdt_reset] s) s1"
      using checkWiFiConnection_globals [of "emits [Esp_task_wdt_reset] s" env] Restarted by simp
    then have "same_globals s s1"
      by (simp add: same_globals_def shared_status_def)
    then show ?thesis
      using Restarted by (simp add: loop_def Let_def)
  qed
qed

lemma run_ticks_not_ready:
  "\<not> firstDataReady (state_of (run_ticks envs s)) \<Longrightarrow> same_globals s (state_of (run_ticks envs s))"
proof (induction envs arbitrary: s)
  case Nil
  then show ?case by simp
next
  case (Cons env envs)
  show ?case
  proof (cases "loop env s")
    case (Running s1)
    then have nr: "\<not> firstDataReady (state_of (run_ticks envs s1))"
      using Cons.prems by simp
    then have g: "same_globals s1 (state_of (run_ticks envs s1))"
      by (rule Cons.IH)
    then have "\<not> firstDataReady s1"
      using nr by (simp add: same_globals_def)
    then have "same_globals s s1"
      using loop_firstDataReady [of env s] Running by simp
    then show ?thesis
      using g Running by (simp add: same_globals_def)
  next
    case (Restarted s1)
    then show ?thesis
      using Cons.prems loop_firstDataReady [of env s] by simp
  qed
qed

text \<open>
  The handlers as functions of the globals: in every state the device reaches from its
  initial state before a tick has succeeded (\<^verbatim>\<open>firstDataReady\<close> is still false), each of
  \<^verbatim>\<open>handleRoot\<close>, \<^verbatim>\<open>handleTemperature\<close>, \<^verbatim>\<open>handleHumidity\<close> and \<^verbatim>\<open>handleJson\<close> would send
  status 200 and a body built from the initial values.
\<close>

theorem handlers_before_first_reading:
  assumes "\<not> firstDataReady (state_of (run_ticks envs initial_state))"
  shows "handleRoot (state_of (run_ticks envs initial_state)) =
       \<lparr> resp_code = 200, resp_content_type = ''text/html'', resp_headers = cors_headers,
         resp_body = root_html_1 @ ''0.0'' @ root_html_2 @ '''' @ root_html_3 @ '''' @
           root_html_4 @ ''0.0'' @ root_html_5 @ ''0.0'' @ root_html_6 \<rparr>
     \<and> handleTemperature (state_of (run_ticks envs initial_state)) =
       \<lparr> resp_code = 200, resp_content_type = ''text/plain'', resp_headers = cors_headers,
         resp_body = ''0.0'' @ degree_utf8 @ ''C'' \<rparr>
     \<and> handleHumidity (state_of (run_ticks envs initial_state)) =
       \<lparr> resp_code = 200, resp_content_type = ''text/plain'', resp_headers = cors_headers,
         resp_body = ''0.0%'' \<rparr>
     \<and> handleJson (state_of (run_ticks envs initial_state)) =
       \<lparr> resp_code = 200, resp_content_type = ''application/json'', resp_headers = cors_headers,
         resp_body = ''{\"temperature\": 0.0,\"humidity\": 0.0,\"time\": \"\",\"date\": \"\",\"status\": \"ok\"}'' \<rparr>"
proof -
  let ?s = "state_of (run_ticks envs initial_state)"
  have "same_globals initial_state ?s"
    using assms by (rule run_ticks_not_ready)
  then have g: "currentTemperature ?s = Fin 0" "currentHumidity ?s = Fin 0"
      "currentTime ?s = ''''" "currentDate ?s = ''''"
    by (simp_all add: same_globals_def shared_status_def initial_state_def)
  have r: "handleRoot ?s = \<lparr> resp_code = 200, resp_content_type = ''text/html'',
         resp_headers = cors_headers,
         resp_body = root_html_1 @ ''0.0'' @ root_html_2 @ '''' @ root_html_3 @ '''' @
           root_html_4 @ ''0.0'' @ root_html_5 @ ''0.0'' @ root_html_6 \<rparr>"
    by (simp add: handleRoot_def Let_def server_send_def server_sendHeader_def g
        String_float_examples cors_headers_def)
  have t: "handleTemperature ?s = \<lparr> resp_code = 200, resp_content_type = ''text/plain'',
         resp_headers = cors_headers, resp_body = ''0.0'' @ degree_utf8 @ ''C'' \<rparr>"
    by (simp add: handleTemperature_def Let_def server_send_def server_sendHeader_def g
        String_float_examples cors_headers_def)
  have h: "handleHumidity ?s = \<lparr> resp_code = 200, resp_content_type = ''text/plain'',
         resp_headers = cors_headers, resp_body = ''0.0%'' \<rparr>"
    by (simp add: handleHumidity_def Let_def server_send_def server_sendHeader_def g
        String_float_examples cors_headers_def)
  have j: "handleJson ?s = \<lparr> resp_code = 200, resp_content_type = ''application/json'',
         resp_headers = cors_headers,
         resp_body = ''{\"temperature\": 0.0,\"humidity\": 0.0,\"time\": \"\",\"date\": \"\",\"status\": \"ok\"}'' \<rparr>"
    by (simp add: handleJson_def Let_def server_send_def server_sendHeader_def g
        String_float_examples cors_headers_def)
  show ?thesis using r t h j by simp
qed










end
